theory Spec2Isabelle
  imports Complex_Main
begin

text \<open>
  A shallow embedding of the trading engine of the Solana agents: the status store and its
  log buffer (logger.js), the scheduler (scheduler.js), the price condition and the wait
  for it (baseline-range.js), the token directory cache, swap and transfer (trading.js)
  and the immediate execution of the DCA driver (baseline-dca.js). The first part holds
  the definitions, each translated from the function of the source it is named after;
  the second part holds the properties proved about them. What a function reads from the
  world (the clock, a service, the callback it wraps) is an argument of its model, and
  what it does to the world (a request, a sleep, a broadcast) is a list of events it
  returns.
\<close>

chapter \<open>The model\<close>

section \<open>JavaScript values\<close>

text \<open>
  The agents are JavaScript modules. Values that cross module boundaries untyped (price
  feed results, callback results, status details) are modelled by \<open>jsval\<close>. Numbers are
  the finite ones (a JSON document holds neither NaN nor an infinity); where the language
  produces NaN (a failed conversion to a number) the conversion returns \<open>None\<close>. An
  object is its list of own properties. What is thrown is an error object with its
  message, a \<open>js_error\<close>, as every \<open>throw\<close> of the modules and of their libraries
  throws one.
\<close>

datatype jsval =
    JUndefined
  | JNull
  | JBool bool
  | JNum real
  | JStr string
  | JObj "(string \<times> jsval) list"

datatype js_error = TypeError string | Error string | ReferenceError string

fun error_message :: "js_error \<Rightarrow> string" where
  "error_message (TypeError m) = m"
| "error_message (Error m) = m"
| "error_message (ReferenceError m) = m"

text \<open>\<open>typeof v\<close>.\<close>

fun typeof :: "jsval \<Rightarrow> string" where
  "typeof JUndefined = ''undefined''"
| "typeof JNull = ''object''"
| "typeof (JBool b) = ''boolean''"
| "typeof (JNum n) = ''number''"
| "typeof (JStr s) = ''string''"
| "typeof (JObj fs) = ''object''"

text \<open>Truthiness, as \<open>if (v)\<close>, \<open>!v\<close>, \<open>v || d\<close> and \<open>v && w\<close> read it.\<close>

fun truthy :: "jsval \<Rightarrow> bool" where
  "truthy JUndefined = False"
| "truthy JNull = False"
| "truthy (JBool b) = b"
| "truthy (JNum n) = (n \<noteq> 0)"
| "truthy (JStr s) = (s \<noteq> [])"
| "truthy (JObj fs) = True"

text \<open>
  Property read \<open>v.k\<close>: a TypeError on \<open>null\<close> and \<open>undefined\<close> (with the message
  Node prints), \<open>undefined\<close> for a property an object does not have. The primitives have
  none of the properties the agents read (\<open>success\<close>, \<open>price\<close>, \<open>error\<close>, \<open>message\<close>).
\<close>

fun getprop :: "jsval \<Rightarrow> string \<Rightarrow> js_error + jsval" where
  "getprop JUndefined k =
     Inl (TypeError (''Cannot read properties of undefined (reading '' @ [CHR 0x27] @ k @ [CHR 0x27] @ '')''))"
| "getprop JNull k =
     Inl (TypeError (''Cannot read properties of null (reading '' @ [CHR 0x27] @ k @ [CHR 0x27] @ '')''))"
| "getprop (JObj fs) k = Inr (case map_of fs k of None \<Rightarrow> JUndefined | Some v \<Rightarrow> v)"
| "getprop v k = Inr JUndefined"

text \<open>
  Conversion to a number, as the relational operators apply it to an operand that is not
  one. The conversion of a string is the language's own parser, taken as the parameter
  \<open>S\<close>; \<open>None\<close> is NaN.
\<close>

fun ToNumber :: "(string \<Rightarrow> real option) \<Rightarrow> jsval \<Rightarrow> real option" where
  "ToNumber S JUndefined = None"
| "ToNumber S JNull = Some 0"
| "ToNumber S (JBool b) = Some (if b then 1 else 0)"
| "ToNumber S (JNum n) = Some n"
| "ToNumber S (JStr s) = S s"
| "ToNumber S (JObj fs) = None"

text \<open>\<open>v >= t\<close> and \<open>v <= t\<close> against a number \<open>t\<close>: false when \<open>v\<close> converts to NaN.\<close>

definition js_ge :: "(string \<Rightarrow> real option) \<Rightarrow> jsval \<Rightarrow> real \<Rightarrow> bool" where
  "js_ge S v t = (case ToNumber S v of None \<Rightarrow> False | Some n \<Rightarrow> n \<ge> t)"

definition js_le :: "(string \<Rightarrow> real option) \<Rightarrow> jsval \<Rightarrow> real \<Rightarrow> bool" where
  "js_le S v t = (case ToNumber S v of None \<Rightarrow> False | Some n \<Rightarrow> n \<le> t)"

text \<open>
  \<open>s.toUpperCase()\<close> on the ASCII letters; the stage names and the token symbols it is
  applied to are ASCII.
\<close>

definition upper_char :: "char \<Rightarrow> char" where
  "upper_char c =
     (let n = (of_char c :: nat)
      in if 97 \<le> n \<and> n \<le> 122 then char_of (n - 32) else c)"

definition toUpperCase :: "string \<Rightarrow> string" where
  "toUpperCase s = map upper_char s"

section \<open>Status store (logger.js)\<close>

text \<open>
  The module holds two variables: the array \<open>logs\<close> and the object \<open>currentStatus\<close>.
  Every function of the module is a transformer of this pair. What the code reads from
  the clock and the random generator is an argument: \<open>ts\<close> is
  \<open>new Date().toISOString()\<close>, \<open>rid\<close> is \<open>Date.now() + Math.random()\<close>.
\<close>

record log_entry =
  le_timestamp :: string
  le_level :: string
  le_message :: string
  le_id :: real

record status =
  st_stage :: string
  st_message :: string
  st_timestamp :: string
  st_success :: "bool option"
  st_details :: jsval
  st_schedule :: jsval

record store =
  logs :: "log_entry list"
  currentStatus :: status

definition MAX_LOGS :: nat where
  "MAX_LOGS = 1000"

text \<open>\<open>Logger.log(message, level)\<close>: push, then shift once when the array is over the cap.\<close>

definition Logger_log :: "string \<Rightarrow> real \<Rightarrow> string \<Rightarrow> string \<Rightarrow> log_entry list \<Rightarrow> log_entry list" where
  "Logger_log ts rid message level ls =
     (let logEntry = \<lparr>le_timestamp = ts, le_level = level, le_message = message, le_id = rid\<rparr>;
          pushed = ls @ [logEntry]
      in if length pushed > MAX_LOGS then tl pushed else pushed)"

definition Logger_error :: "string \<Rightarrow> real \<Rightarrow> string \<Rightarrow> log_entry list \<Rightarrow> log_entry list" where
  "Logger_error ts rid message = Logger_log ts rid message ''error''"

definition Logger_warn :: "string \<Rightarrow> real \<Rightarrow> string \<Rightarrow> log_entry list \<Rightarrow> log_entry list" where
  "Logger_warn ts rid message = Logger_log ts rid message ''warn''"

definition Logger_info :: "string \<Rightarrow> real \<Rightarrow> string \<Rightarrow> log_entry list \<Rightarrow> log_entry list" where
  "Logger_info ts rid message = Logger_log ts rid message ''info''"

definition clearLogs :: "log_entry list \<Rightarrow> log_entry list" where
  "clearLogs ls = []"

text \<open>The check mark U+2705 that prefixes the log line of a successful stage, in UTF-8.\<close>

definition check_mark :: string where
  "check_mark = [CHR 0xE2, CHR 0x9C, CHR 0x85]"

text \<open>
  \<open>updateStatus(stage, message, success, details, scheduleInfo, shouldLog)\<close>. \<open>ts\<close> stamps
  the snapshot; \<open>ts'\<close> and \<open>rid\<close> stamp the log entry, when one is written.
\<close>

definition updateStatus ::
  "string \<Rightarrow> string \<Rightarrow> real \<Rightarrow> string \<Rightarrow> string \<Rightarrow> bool option \<Rightarrow> jsval \<Rightarrow> jsval \<Rightarrow> bool \<Rightarrow> store \<Rightarrow> store" where
  "updateStatus ts ts' rid stage message success details scheduleInfo shouldLog s =
     (let s1 = s\<lparr>currentStatus :=
                  \<lparr>st_stage = stage, st_message = message, st_timestamp = ts,
                   st_success = success, st_details = details, st_schedule = scheduleInfo\<rparr>\<rparr>
      in if shouldLog then
           (let statusMessage = ''['' @ toUpperCase stage @ ''] '' @ message
            in if success = Some False then s1\<lparr>logs := Logger_error ts' rid statusMessage (logs s1)\<rparr>
               else if success = Some True
                 then s1\<lparr>logs := Logger_info ts' rid (check_mark @ '' '' @ statusMessage) (logs s1)\<rparr>
               else s1\<lparr>logs := Logger_info ts' rid statusMessage (logs s1)\<rparr>)
         else s1)"

definition getStatus :: "store \<Rightarrow> status" where
  "getStatus s = currentStatus s"

text \<open>The buffer after a sequence of appends, each with its own stamps, message and level.\<close>

fun log_all :: "(string \<times> real \<times> string \<times> string) list \<Rightarrow> log_entry list \<Rightarrow> log_entry list" where
  "log_all [] ls = ls"
| "log_all ((ts, rid, message, level) # rest) ls = log_all rest (Logger_log ts rid message level ls)"

definition entry_of :: "string \<times> real \<times> string \<times> string \<Rightarrow> log_entry" where
  "entry_of a = (case a of (ts, rid, message, level) \<Rightarrow>
     \<lparr>le_timestamp = ts, le_level = level, le_message = message, le_id = rid\<rparr>)"

section \<open>The runtime's number conversions\<close>

text \<open>
  Three conversions of the language are parameters of the model: \<open>rt_parse\<close> is the
  conversion of a string to a number (\<open>None\<close> is NaN), \<open>rt_show\<close> the conversion of a
  number to a string, as a template literal applies it, and \<open>rt_toFixed\<close> is
  \<open>Number.prototype.toFixed\<close>.
\<close>

record runtime =
  rt_parse :: "string \<Rightarrow> real option"
  rt_show :: "real \<Rightarrow> string"
  rt_toFixed :: "real \<Rightarrow> nat \<Rightarrow> string"

text \<open>\<open>`${v}`\<close>: the string a template literal puts in place of a value.\<close>

fun ToString :: "runtime \<Rightarrow> jsval \<Rightarrow> string" where
  "ToString R JUndefined = ''undefined''"
| "ToString R JNull = ''null''"
| "ToString R (JBool b) = (if b then ''true'' else ''false'')"
| "ToString R (JNum n) = rt_show R n"
| "ToString R (JStr s) = s"
| "ToString R (JObj fs) = ''[object Object]''"

text \<open>
  A runtime to evaluate examples with: it parses no string and prints every number as a
  question mark. No example below depends on either conversion.
\<close>

definition example_runtime :: runtime where
  "example_runtime =
     \<lparr>rt_parse = (\<lambda>s. None), rt_show = (\<lambda>n. ''?''), rt_toFixed = (\<lambda>n k. ''?'')\<rparr>"

section \<open>Price feed and price condition (trading.js, baseline-range.js)\<close>

text \<open>
  \<open>price(symbol)\<close>, given what \<open>marketData(symbol)\<close> returned: the error object as it is,
  otherwise the \<open>price\<close> property of the data. A TypeError of the property read is caught
  and returned as an error object. The function never throws.
\<close>

definition price :: "jsval \<Rightarrow> jsval" where
  "price data =
     (case getprop data ''success'' of
        Inl e \<Rightarrow> JObj [(''success'', JBool False), (''error'', JStr (error_message e))]
      | Inr s \<Rightarrow>
          if s = JBool False then data
          else (case getprop data ''price'' of
                  Inl e \<Rightarrow> JObj [(''success'', JBool False), (''error'', JStr (error_message e))]
                | Inr p \<Rightarrow> p))"

text \<open>
  The result object of \<open>checkPriceCondition\<close> and \<open>waitForPriceCondition\<close>; a property the
  object does not have is \<open>None\<close>.
\<close>

record price_check =
  pc_success :: bool
  pc_error :: "string option"
  pc_currentPrice :: "jsval option"
  pc_targetPrice :: "real option"
  pc_conditionMet :: bool
  pc_condition :: "string option"
  pc_timeout :: "bool option"

definition price_check_failed :: "string \<Rightarrow> price_check" where
  "price_check_failed msg =
     \<lparr>pc_success = False, pc_error = Some msg, pc_currentPrice = None, pc_targetPrice = None,
      pc_conditionMet = False, pc_condition = None, pc_timeout = None\<rparr>"

text \<open>
  The body of the \<open>try\<close> block of \<open>checkPriceCondition(tokenToMonitor, targetPrice, above)\<close>
  on the value \<open>priceResult\<close> that \<open>await price(tokenToMonitor)\<close> gave. The four branches
  are the source's, in its order; \<open>Inl\<close> is an exception thrown inside the block. The
  status publications and log lines of the function do not bear on what it returns and
  are left out here.
\<close>

definition checkPriceCondition_try ::
  "runtime \<Rightarrow> jsval \<Rightarrow> string \<Rightarrow> real \<Rightarrow> bool \<Rightarrow> js_error + price_check" where
  "checkPriceCondition_try R priceResult tokenToMonitor targetPrice isAbove =
     (let finish = (\<lambda>currentPrice.
            let conditionMet = (if isAbove then js_ge (rt_parse R) currentPrice targetPrice
                                else js_le (rt_parse R) currentPrice targetPrice);
                conditionText = (if isAbove then ''above'' else ''below'')
            in Inr \<lparr>pc_success = True, pc_error = None, pc_currentPrice = Some currentPrice,
                    pc_targetPrice = Some targetPrice, pc_conditionMet = conditionMet,
                    pc_condition = Some conditionText, pc_timeout = None\<rparr>);
          invalid = Inr (price_check_failed (''Invalid price format for '' @ tokenToMonitor))
      in if typeof priceResult = ''object'' then
           (case getprop priceResult ''success'' of
              Inl e \<Rightarrow> Inl e
            | Inr s \<Rightarrow>
                if s = JBool False then
                  (case getprop priceResult ''error'' of
                     Inl e \<Rightarrow> Inl e
                   | Inr err \<Rightarrow>
                       Inr (price_check_failed
                              (''Failed to get '' @ tokenToMonitor @ '' price: '' @ ToString R err)))
                else
                  (case getprop priceResult ''price'' of
                     Inl e \<Rightarrow> Inl e
                   | Inr p \<Rightarrow> if truthy p then finish p else invalid))
         else if typeof priceResult = ''number'' then finish priceResult
         else invalid)"

text \<open>The function with its \<open>catch\<close>: an exception becomes an error result.\<close>

definition checkPriceCondition ::
  "runtime \<Rightarrow> jsval \<Rightarrow> string \<Rightarrow> real \<Rightarrow> bool \<Rightarrow> price_check" where
  "checkPriceCondition R priceResult tokenToMonitor targetPrice isAbove =
     (case checkPriceCondition_try R priceResult tokenToMonitor targetPrice isAbove of
        Inl e \<Rightarrow> price_check_failed (error_message e)
      | Inr r \<Rightarrow> r)"

text \<open>
  \<open>waitForPriceCondition\<close>. Time is the module's own reading of it: \<open>elapsed\<close> is
  \<open>Date.now() - startTime\<close> at the loop test, in milliseconds. The world is the function
  \<open>feed\<close>: poll \<open>i\<close> gets the price result \<open>fst (feed i)\<close>, and \<open>snd (feed i)\<close> milliseconds
  pass in the poll and in the timer beyond the 30 seconds asked for. The function returns
  its result with the polls it made, each with the elapsed time at which it started.
\<close>

definition checkInterval :: nat where
  "checkInterval = 30000"

definition timeout_result :: price_check where
  "timeout_result =
     \<lparr>pc_success = True, pc_error = Some ''Price monitoring timeout reached'',
      pc_currentPrice = None, pc_targetPrice = None, pc_conditionMet = False,
      pc_condition = None, pc_timeout = Some True\<rparr>"

function wait_loop ::
  "runtime \<Rightarrow> (nat \<Rightarrow> jsval \<times> nat) \<Rightarrow> string \<Rightarrow> real \<Rightarrow> bool \<Rightarrow> nat \<Rightarrow> nat \<Rightarrow> nat
     \<Rightarrow> price_check \<times> (nat \<times> price_check) list" where
  "wait_loop R feed tokenToMonitor targetPrice isAbove maxWaitTime i elapsed =
     (if elapsed < maxWaitTime then
        (let priceCheck = checkPriceCondition R (fst (feed i)) tokenToMonitor targetPrice isAbove;
             later = elapsed + snd (feed i) + checkInterval
         in if \<not> pc_success priceCheck then
              (let rest = wait_loop R feed tokenToMonitor targetPrice isAbove maxWaitTime (Suc i) later
               in (fst rest, (elapsed, priceCheck) # snd rest))
            else if pc_conditionMet priceCheck then (priceCheck, [(elapsed, priceCheck)])
            else
              (let rest = wait_loop R feed tokenToMonitor targetPrice isAbove maxWaitTime (Suc i) later
               in (fst rest, (elapsed, priceCheck) # snd rest)))
      else (timeout_result, []))"
  by pat_completeness auto
termination
  by (relation "measure (\<lambda>(R, feed, tok, target, isAbove, maxWaitTime, i, elapsed). maxWaitTime - elapsed)")
     (auto simp: checkInterval_def)

declare wait_loop.simps [simp del]

text \<open>
  The exported function: \<open>maxWaitTime\<close> defaults to 24 hours; \<open>lag0\<close> is the time between
  reading \<open>startTime\<close> and the first loop test.
\<close>

definition waitForPriceCondition ::
  "runtime \<Rightarrow> (nat \<Rightarrow> jsval \<times> nat) \<Rightarrow> nat \<Rightarrow> string \<Rightarrow> real \<Rightarrow> bool \<Rightarrow> nat option
     \<Rightarrow> price_check \<times> (nat \<times> price_check) list" where
  "waitForPriceCondition R feed lag0 tokenToMonitor targetPrice isAbove maxWaitTime =
     wait_loop R feed tokenToMonitor targetPrice isAbove
       (case maxWaitTime of None \<Rightarrow> 24 * 60 * 60 * 1000 | Some m \<Rightarrow> m) 0 lag0"

text \<open>A poll settles the wait when it succeeded and found the condition met.\<close>

definition settled :: "price_check \<Rightarrow> bool" where
  "settled p = (pc_success p \<and> pc_conditionMet p)"

text \<open>
  Two feeds for examples: one fails at the first poll (which takes 250 ms), is below the
  target at the second and above it from the third on; the other fails at every poll.
\<close>

definition example_feed :: "nat \<Rightarrow> jsval \<times> nat" where
  "example_feed i =
     (if i = 0 then (JObj [(''success'', JBool False), (''error'', JStr ''x'')], 250)
      else if i = 1 then (JNum 95, 0)
      else (JNum 105, 0))"

definition failing_feed :: "nat \<Rightarrow> jsval \<times> nat" where
  "failing_feed i = (JObj [(''success'', JBool False), (''error'', JStr ''x'')], 0)"

section \<open>Scheduler (scheduler.js)\<close>

subsection \<open>Times of day\<close>

text \<open>
  \<open>scheduleTimes\<close> parses each time string with \<open>timeStr.split(':').map(Number)\<close> and
  takes the first two numbers as hour and minute. The model covers the strings whose
  first two parts are non-empty strings of decimal digits, on which \<open>Number\<close> is the
  decimal value; on any other string \<open>parseTime\<close> is \<open>None\<close> (the source then computes
  with NaN, fractions or negative numbers, which is outside the model).
\<close>

record hm =
  hour :: nat
  minute :: nat

fun split_colon :: "string \<Rightarrow> string list" where
  "split_colon [] = [[]]"
| "split_colon (c # cs) =
     (if c = CHR '':'' then [] # split_colon cs
      else (case split_colon cs of [] \<Rightarrow> [[c]] | p # ps \<Rightarrow> (c # p) # ps))"

definition is_digit :: "char \<Rightarrow> bool" where
  "is_digit c = (48 \<le> (of_char c :: nat) \<and> (of_char c :: nat) \<le> 57)"

definition Number_digits :: "string \<Rightarrow> nat option" where
  "Number_digits s =
     (if s \<noteq> [] \<and> list_all is_digit s
      then Some (foldl (\<lambda>a c. 10 * a + (of_char c - 48)) 0 s) else None)"

definition parseTime :: "string \<Rightarrow> hm option" where
  "parseTime timeStr =
     (case split_colon timeStr of
        h # m # rest \<Rightarrow>
          (case (Number_digits h, Number_digits m) of
             (Some a, Some b) \<Rightarrow> Some \<lparr>hour = a, minute = b\<rparr>
           | _ \<Rightarrow> None)
      | _ \<Rightarrow> None)"

text \<open>The key of the sort: \<open>a.hour * 60 + a.minute\<close>.\<close>

definition minute_of_day :: "hm \<Rightarrow> nat" where
  "minute_of_day t = hour t * 60 + minute t"

text \<open>
  \<open>parsedTimes\<close>: the parsed times, sorted by the comparator
  \<open>a.hour * 60 + a.minute - (b.hour * 60 + b.minute)\<close>. The sort of an array is stable, as
  \<open>sort_key\<close> is.
\<close>

definition parsedTimes :: "string list \<Rightarrow> hm list option" where
  "parsedTimes timeStrs = map_option (sort_key minute_of_day) (those (map parseTime timeStrs))"

subsection \<open>The next execution\<close>










subsection \<open>Recording an execution\<close>

record last_execution =
  lx_timestamp :: string
  lx_duration :: "string option"
  lx_success :: jsval
  lx_details :: "jsval option"
  lx_error :: "string option"

record schedule =
  sc_type :: string
  sc_intervalMs :: "nat option"
  sc_times :: "hm list option"
  sc_startTime :: int
  sc_lastExecution :: "last_execution option"
  sc_nextExecution :: "int option"

text \<open>
  What the scheduled callback did: it resolved with a value, or it threw (or rejected
  with) an error object.
\<close>

datatype outcome = Resolves jsval | Throws js_error

text \<open>\<open>v?.k\<close>: \<open>undefined\<close> on \<open>null\<close> and \<open>undefined\<close>, the property otherwise.\<close>

definition optchain :: "jsval \<Rightarrow> string \<Rightarrow> jsval" where
  "optchain v k = (case getprop v k of Inl e \<Rightarrow> JUndefined | Inr x \<Rightarrow> x)"

text \<open>\<open>a || b\<close>.\<close>

definition js_or :: "jsval \<Rightarrow> jsval \<Rightarrow> jsval" where
  "js_or a b = (if truthy a then a else b)"

text \<open>
  \<open>wrappedFunction\<close>, the closure that \<open>scheduleInterval\<close> and \<open>scheduleTimes\<close> both build
  around the callback (the two copies differ in nothing but the schedule id they close
  over). \<open>executionStart\<close> and \<open>executionEnd\<close> are the two readings of \<open>Date.now()\<close>, \<open>ts\<close>
  the \<open>toISOString()\<close> of the time of the record. The first function is the \<open>try\<close> block
  after the callback has settled, the second the \<open>catch\<close> block; \<open>Inl\<close> is an exception
  that leaves the block.
\<close>

definition record_execution :: "string \<Rightarrow> last_execution \<Rightarrow> (string \<rightharpoonup> schedule) \<Rightarrow> (string \<rightharpoonup> schedule)" where
  "record_execution scheduleId lx activeSchedules =
     (case activeSchedules scheduleId of
        None \<Rightarrow> activeSchedules
      | Some sch \<Rightarrow> activeSchedules(scheduleId \<mapsto> sch\<lparr>sc_lastExecution := Some lx\<rparr>))"

definition wrappedFunction_try ::
  "runtime \<Rightarrow> string \<Rightarrow> outcome \<Rightarrow> int \<Rightarrow> int \<Rightarrow> string \<Rightarrow> (string \<rightharpoonup> schedule)
     \<Rightarrow> js_error + (string \<rightharpoonup> schedule)" where
  "wrappedFunction_try R scheduleId out executionStart executionEnd ts activeSchedules =
     (case out of
        Throws e \<Rightarrow> Inl e
      | Resolves result \<Rightarrow>
          Inr (record_execution scheduleId
                 \<lparr>lx_timestamp = ts,
                  lx_duration = Some (rt_show R (real_of_int (executionEnd - executionStart) / 1000) @ ''s''),
                  lx_success = js_or (optchain result ''success'') (JBool True),
                  lx_details = Some (js_or result (JObj [])),
                  lx_error = None\<rparr>
                 activeSchedules))"

definition wrappedFunction_catch ::
  "string \<Rightarrow> js_error \<Rightarrow> string \<Rightarrow> (string \<rightharpoonup> schedule) \<Rightarrow> js_error + (string \<rightharpoonup> schedule)" where
  "wrappedFunction_catch scheduleId e ts activeSchedules =
     Inr (record_execution scheduleId
            \<lparr>lx_timestamp = ts, lx_duration = None, lx_success = JBool False,
             lx_details = None, lx_error = Some (error_message e)\<rparr>
            activeSchedules)"

definition wrappedFunction ::
  "runtime \<Rightarrow> string \<Rightarrow> outcome \<Rightarrow> int \<Rightarrow> int \<Rightarrow> string \<Rightarrow> (string \<rightharpoonup> schedule)
     \<Rightarrow> js_error + (string \<rightharpoonup> schedule)" where
  "wrappedFunction R scheduleId out executionStart executionEnd ts activeSchedules =
     (case wrappedFunction_try R scheduleId out executionStart executionEnd ts activeSchedules of
        Inl e \<Rightarrow> wrappedFunction_catch scheduleId e ts activeSchedules
      | Inr s \<Rightarrow> Inr s)"

text \<open>The last execution recorded for a schedule, after a run of the wrapped callback.\<close>

definition lastExecution_after :: "js_error + (string \<rightharpoonup> schedule) \<Rightarrow> string \<Rightarrow> last_execution option" where
  "lastExecution_after r scheduleId =
     (case r of
        Inl e \<Rightarrow> None
      | Inr s \<Rightarrow> (case s scheduleId of None \<Rightarrow> None | Some sch \<Rightarrow> sc_lastExecution sch))"


section \<open>Token directory cache (trading.js)\<close>

text \<open>
  The module variables \<open>jupiterTokensCache\<close> and \<open>jupiterTokensCacheTime\<close>. The directory
  is a value of any type \<open>'d\<close>; \<open>None\<close> is \<open>null\<close> (the initial value) or another falsy
  value, which \<open>!jupiterTokensCache\<close> does not tell from \<open>null\<close>.
\<close>

record 'd token_cache =
  jupiterTokensCache :: "'d option"
  jupiterTokensCacheTime :: int

definition CACHE_DURATION :: int where
  "CACHE_DURATION = 5 * 60 * 1000"

text \<open>
  What the request for the directory does: \<open>fetch\<close> or \<open>response.json()\<close> throws, the
  response is not ok, or the response is ok with a body (\<open>None\<close>: a falsy body).
\<close>

datatype 'd fetch_outcome = FetchThrows js_error | ResponseNotOk | ResponseJson "'d option"

text \<open>
  \<open>getJupiterTokens\<close> at the instant \<open>now\<close>. It returns what the caller gets (\<open>Inl\<close>: the
  exception thrown), the cache afterwards, and whether a request was made.
\<close>

definition getJupiterTokens ::
  "int \<Rightarrow> 'd fetch_outcome \<Rightarrow> 'd token_cache \<Rightarrow> (js_error + 'd option) \<times> 'd token_cache \<times> bool" where
  "getJupiterTokens now response c =
     (if jupiterTokensCache c = None \<or> now - jupiterTokensCacheTime c > CACHE_DURATION then
        (case response of
           ResponseJson body \<Rightarrow>
             (Inr body, \<lparr>jupiterTokensCache = body, jupiterTokensCacheTime = now\<rparr>, True)
         | ResponseNotOk \<Rightarrow> (Inr (jupiterTokensCache c), c, True)
         | FetchThrows e \<Rightarrow>
             if jupiterTokensCache c = None
             then (Inl (Error ''Unable to fetch token list from Jupiter API''), c, True)
             else (Inr (jupiterTokensCache c), c, True))
      else (Inr (jupiterTokensCache c), c, False))"

section \<open>Swap and transfer (trading.js)\<close>

subsection \<open>What the functions do to the world\<close>

text \<open>
  A function that talks to a service returns, besides its result, the list of what it
  did, in order: a request to the quote endpoint or to the swap endpoint (with the number
  of the attempt), a sleep before a retry (in milliseconds), the instructions put into a
  transfer transaction, a transaction signed and sent (with the hash returned), and a
  request for its confirmation.
\<close>

datatype instruction =
    SystemTransfer int
  | CreateAssociatedTokenAccount
  | TokenTransfer int

datatype event =
    QuoteRequest nat
  | SwapRequest nat
  | Sleep nat
  | Instructions "instruction list"
  | Broadcast string
  | ConfirmRequest string

text \<open>
  What a request does: something throws (\<open>fetch\<close>, or reading the body), the response is
  not ok (with its status and text), or the response is ok with a JSON body.
\<close>

datatype http = NetworkError js_error | NotOk string string | Json jsval

text \<open>
  What \<open>connection.confirmTransaction\<close> does: it throws (a timeout, say), or it returns
  a confirmation whose \<open>value.err\<close> is truthy (the value given), or one with no error.
\<close>

datatype confirmation = ConfirmThrows js_error | ConfirmErr jsval | ConfirmOk

record token =
  tk_symbol :: string
  tk_address :: string
  tk_decimals :: nat

text \<open>
  \<open>tokens.find(t => t.symbol && t.symbol.toUpperCase() === symbol.toUpperCase())\<close>.
\<close>

definition find_token :: "token list \<Rightarrow> string \<Rightarrow> token option" where
  "find_token tokens symbol =
     List.find (\<lambda>t. tk_symbol t \<noteq> [] \<and> toUpperCase (tk_symbol t) = toUpperCase symbol) tokens"

text \<open>\<open>s.includes(sub)\<close>.\<close>

fun starts_with :: "string \<Rightarrow> string \<Rightarrow> bool" where
  "starts_with s [] = True"
| "starts_with [] (c # cs) = False"
| "starts_with (x # xs) (c # cs) = (x = c \<and> starts_with xs cs)"

fun str_includes :: "string \<Rightarrow> string \<Rightarrow> bool" where
  "str_includes [] sub = (sub = [])"
| "str_includes (x # xs) sub = (starts_with (x # xs) sub \<or> str_includes xs sub)"

subsection \<open>The two retry loops\<close>

text \<open>One attempt of the quote loop: the body of its \<open>try\<close>.\<close>

definition quote_attempt :: "http \<Rightarrow> js_error + jsval" where
  "quote_attempt response =
     (case response of
        NetworkError e \<Rightarrow> Inl e
      | NotOk status errorText \<Rightarrow> Inl (Error (''Quote API error '' @ status @ '': '' @ errorText))
      | Json quoteData \<Rightarrow>
          (case getprop quoteData ''outAmount'' of
             Inl e \<Rightarrow> Inl e
           | Inr outAmount \<Rightarrow>
               if \<not> truthy outAmount \<or> outAmount = JStr ''0''
               then Inl (Error ''No valid route found for this swap'')
               else Inr quoteData))"

text \<open>One attempt of the swap-transaction loop.\<close>

definition swap_attempt :: "http \<Rightarrow> js_error + jsval" where
  "swap_attempt response =
     (case response of
        NetworkError e \<Rightarrow> Inl e
      | NotOk status errorText \<Rightarrow> Inl (Error (''Swap API error '' @ status @ '': '' @ errorText))
      | Json swapData \<Rightarrow>
          (case getprop swapData ''swapTransaction'' of
             Inl e \<Rightarrow> Inl e
           | Inr tx \<Rightarrow>
               if \<not> truthy tx then Inl (Error ''No swap transaction received from Jupiter'')
               else Inr swapData))"

text \<open>
  \<open>for (let attempt = 1; attempt <= maxRetries; attempt++)\<close> around an attempt: a failed
  attempt is thrown on when it was the last, and followed by a sleep of
  \<open>1000 * attempt\<close> ms otherwise. A loop that never runs leaves its variable \<open>undefined\<close>.
\<close>

function retry_loop ::
  "(http \<Rightarrow> js_error + jsval) \<Rightarrow> (nat \<Rightarrow> event) \<Rightarrow> (nat \<Rightarrow> http) \<Rightarrow> nat \<Rightarrow> nat
     \<Rightarrow> (js_error + jsval) \<times> event list" where
  "retry_loop body request api maxRetries attempt =
     (if attempt \<le> maxRetries then
        (case body (api attempt) of
           Inr data \<Rightarrow> (Inr data, [request attempt])
         | Inl e \<Rightarrow>
             if attempt = maxRetries then (Inl e, [request attempt])
             else (let rest = retry_loop body request api maxRetries (Suc attempt)
                   in (fst rest, request attempt # Sleep (1000 * attempt) # snd rest)))
      else (Inr JUndefined, []))"
  by pat_completeness auto
termination
  by (relation "measure (\<lambda>(body, request, api, maxRetries, attempt). Suc maxRetries - attempt)") auto

declare retry_loop.simps [simp del]

subsection \<open>swap\<close>

record swap_options =
  so_slippageBps :: "nat option"
  so_priorityFee :: "string option"
  so_maxRetries :: "nat option"
  so_confirmTransaction :: "bool option"

text \<open>The options object \<open>{}\<close>: every option takes its default.\<close>

definition default_options :: swap_options where
  "default_options =
     \<lparr>so_slippageBps = None, so_priorityFee = None, so_maxRetries = None,
      so_confirmTransaction = None\<rparr>"

text \<open>
  The services as one call of \<open>swap\<close> meets them: what \<open>getJupiterTokens\<close> returns or
  throws, the responses of the quote and swap endpoints to each attempt, whether the
  transaction deserializes, what \<open>signAndSendTransaction\<close> returns or throws, and what the
  confirmation does.
\<close>

record swap_env =
  se_tokens :: "js_error + token list option"
  se_quote :: "nat \<Rightarrow> http"
  se_swap :: "nat \<Rightarrow> http"
  se_deserialize :: "js_error option"
  se_sign :: "js_error + string"
  se_confirm :: confirmation

text \<open>
  The result object of \<open>swap\<close>. Of a successful result the model keeps \<open>success\<close>,
  \<open>signature\<close> and \<open>fromAmount\<close>; the estimated amounts, the price impact, the route and
  the execution time are left out, and so is the timestamp of a failed one.
\<close>

record swap_result =
  sr_success :: bool
  sr_signature :: "string option"
  sr_fromAmount :: "int option"
  sr_error :: "string option"
  sr_errorCategory :: "string option"

text \<open>The classification of the \<open>catch\<close> block of \<open>swap\<close>.\<close>

definition errorCategory :: "string \<Rightarrow> string" where
  "errorCategory message =
     (if str_includes message ''insufficient'' then ''insufficient_funds''
      else if str_includes message ''slippage'' then ''slippage_exceeded''
      else if str_includes message ''timeout'' then ''timeout''
      else if str_includes message ''route'' then ''no_route''
      else ''unknown'')"

text \<open>
  The tail of the \<open>try\<close> block of \<open>swap\<close>, from the confirmation on. The three outcomes
  of the confirmation are logged, each in its way, and lead to the same return.
\<close>

definition swap_confirm ::
  "bool \<Rightarrow> confirmation \<Rightarrow> string \<Rightarrow> int \<Rightarrow> (js_error + swap_result) \<times> event list" where
  "swap_confirm confirmTransaction conf hash rawAmount =
     (let result = Inr \<lparr>sr_success = True, sr_signature = Some hash, sr_fromAmount = Some rawAmount,
                        sr_error = None, sr_errorCategory = None\<rparr>
      in if confirmTransaction then
           (case conf of
              ConfirmThrows confirmError \<Rightarrow> (result, [ConfirmRequest hash])
            | ConfirmErr err \<Rightarrow> (result, [ConfirmRequest hash])
            | ConfirmOk \<Rightarrow> (result, [ConfirmRequest hash]))
         else (result, []))"

text \<open>The \<open>try\<close> block of \<open>swap\<close>; \<open>Inl\<close> is an exception that reaches the \<open>catch\<close>.\<close>

definition swap_try ::
  "swap_env \<Rightarrow> string \<Rightarrow> string \<Rightarrow> real \<Rightarrow> swap_options \<Rightarrow> (js_error + swap_result) \<times> event list" where
  "swap_try env fromTokenSymbol toTokenSymbol fromAmount options =
     (let maxRetries = (case so_maxRetries options of None \<Rightarrow> 3 | Some n \<Rightarrow> n);
          confirmTransaction = (case so_confirmTransaction options of None \<Rightarrow> True | Some b \<Rightarrow> b)
      in case se_tokens env of
           Inl e \<Rightarrow> (Inl e, [])
         | Inr None \<Rightarrow>
             (Inl (TypeError (''Cannot read properties of null (reading '' @ [CHR 0x27] @ ''find''
                              @ [CHR 0x27] @ '')'')), [])
         | Inr (Some tokens) \<Rightarrow>
             (case (find_token tokens fromTokenSymbol, find_token tokens toTokenSymbol) of
                (Some fromTokenInfo, Some toTokenInfo) \<Rightarrow>
                  (let rawAmount = \<lfloor>fromAmount * 10 ^ tk_decimals fromTokenInfo\<rfloor>;
                       quote = retry_loop quote_attempt QuoteRequest (se_quote env) maxRetries 1
                   in case fst quote of
                        Inl e \<Rightarrow> (Inl e, snd quote)
                      | Inr quoteData \<Rightarrow>
                          (case getprop quoteData ''outAmount'' of
                             Inl e \<Rightarrow> (Inl e, snd quote)
                           | Inr outAmount \<Rightarrow>
                               (let tx = retry_loop swap_attempt SwapRequest (se_swap env) maxRetries 1
                                in case fst tx of
                                     Inl e \<Rightarrow> (Inl e, snd quote @ snd tx)
                                   | Inr swapData \<Rightarrow>
                                       (case getprop swapData ''swapTransaction'' of
                                          Inl e \<Rightarrow> (Inl e, snd quote @ snd tx)
                                        | Inr swapTransaction \<Rightarrow>
                                            (case se_deserialize env of
                                               Some e \<Rightarrow> (Inl e, snd quote @ snd tx)
                                             | None \<Rightarrow>
                                                 (case se_sign env of
                                                    Inl e \<Rightarrow> (Inl e, snd quote @ snd tx)
                                                  | Inr hash \<Rightarrow>
                                                      (let fin = swap_confirm confirmTransaction
                                                                   (se_confirm env) hash rawAmount
                                                       in (fst fin,
                                                           snd quote @ snd tx @ [Broadcast hash] @ snd fin))))))))
              | _ \<Rightarrow>
                  (Inl (Error (''Token not found: '' @ fromTokenSymbol @ '' or '' @ toTokenSymbol)), [])))"

text \<open>\<open>swap\<close>: an exception of the \<open>try\<close> block becomes a failed result with its category.\<close>

definition swap ::
  "swap_env \<Rightarrow> string \<Rightarrow> string \<Rightarrow> real \<Rightarrow> swap_options \<Rightarrow> swap_result \<times> event list" where
  "swap env fromTokenSymbol toTokenSymbol fromAmount options =
     (let r = swap_try env fromTokenSymbol toTokenSymbol fromAmount options
      in case fst r of
           Inr result \<Rightarrow> (result, snd r)
         | Inl error \<Rightarrow>
             (\<lparr>sr_success = False, sr_signature = None, sr_fromAmount = None,
               sr_error = Some (error_message error),
               sr_errorCategory = Some (errorCategory (error_message error))\<rparr>, snd r))"

subsection \<open>getTokenMintAddress and transfer\<close>

record mint_result =
  mr_success :: bool
  mr_mintAddress :: "string option"
  mr_decimals :: "nat option"
  mr_error :: "string option"

text \<open>
  \<open>getTokenMintAddress(symbol)\<close>, given what \<open>getJupiterTokens\<close> returns or throws. Every
  exception is caught and returned as a failed result.
\<close>

definition getTokenMintAddress :: "(js_error + token list option) \<Rightarrow> string \<Rightarrow> mint_result" where
  "getTokenMintAddress tokens symbol =
     (let failed = (\<lambda>e. \<lparr>mr_success = False, mr_mintAddress = None, mr_decimals = None,
                          mr_error = Some (error_message e)\<rparr>)
      in case tokens of
           Inl e \<Rightarrow> failed e
         | Inr None \<Rightarrow>
             failed (TypeError (''Cannot read properties of null (reading '' @ [CHR 0x27] @ ''find''
                                @ [CHR 0x27] @ '')''))
         | Inr (Some ts) \<Rightarrow>
             (case find_token ts symbol of
                None \<Rightarrow> failed (Error (''Token with symbol '' @ [CHR 0x27] @ symbol @ [CHR 0x27]
                                        @ '' not found''))
              | Some t \<Rightarrow>
                  \<lparr>mr_success = True, mr_mintAddress = Some (tk_address t),
                   mr_decimals = Some (tk_decimals t), mr_error = None\<rparr>))"

text \<open>
  The services as one call of \<open>transfer\<close> meets them: whether the two addresses are
  public keys, whether the latest blockhash is fetched, the token directory, whether the
  associated token addresses are derived, whether the recipient has a token account, what
  building, signing and sending the transaction returns or throws, and what the
  confirmation does.
\<close>

record transfer_env =
  te_keys :: "js_error option"
  te_blockhash :: "js_error option"
  te_tokens :: "js_error + token list option"
  te_accounts :: "js_error option"
  te_toAccountExists :: bool
  te_sign :: "js_error + string"
  te_confirm :: confirmation

text \<open>
  The result object of \<open>transfer\<close>: \<open>success\<close>, the signature of a successful transfer,
  the error of a failed one. The addresses, amount, token and timestamp that a result
  repeats are left out.
\<close>

record transfer_result =
  tr_success :: bool
  tr_signature :: "string option"
  tr_error :: "string option"

text \<open>The instructions of the transaction; \<open>Inl\<close> is an exception.\<close>

definition transfer_instructions ::
  "transfer_env \<Rightarrow> string \<Rightarrow> real \<Rightarrow> js_error + instruction list" where
  "transfer_instructions env tokenSymbol amount =
     (if toUpperCase tokenSymbol = ''SOL'' then Inr [SystemTransfer \<lfloor>amount * 10 ^ 9\<rfloor>]
      else
        (let tokenResult = getTokenMintAddress (te_tokens env) tokenSymbol
         in if \<not> mr_success tokenResult then
              Inl (Error (''Token '' @ tokenSymbol @ '' not found: ''
                          @ (case mr_error tokenResult of None \<Rightarrow> ''undefined'' | Some m \<Rightarrow> m)))
            else
              (case te_accounts env of
                 Some e \<Rightarrow> Inl e
               | None \<Rightarrow>
                   (let rawAmount = \<lfloor>amount * 10 ^ (case mr_decimals tokenResult of None \<Rightarrow> 0 | Some d \<Rightarrow> d)\<rfloor>
                    in Inr ((if \<not> te_toAccountExists env then [CreateAssociatedTokenAccount] else [])
                            @ [TokenTransfer rawAmount])))))"

text \<open>
  The tail of the \<open>try\<close> block of \<open>transfer\<close>, from the confirmation on: a confirmation
  that reports an error returns a failed result; one that throws is logged and the
  transfer is reported as successful.
\<close>

definition transfer_confirm :: "runtime \<Rightarrow> confirmation \<Rightarrow> string \<Rightarrow> transfer_result" where
  "transfer_confirm R conf hash =
     (case conf of
        ConfirmErr err \<Rightarrow>
          \<lparr>tr_success = False, tr_signature = None,
           tr_error = Some (''Transaction failed: '' @ ToString R err)\<rparr>
      | ConfirmThrows confirmError \<Rightarrow>
          \<lparr>tr_success = True, tr_signature = Some hash, tr_error = None\<rparr>
      | ConfirmOk \<Rightarrow>
          \<lparr>tr_success = True, tr_signature = Some hash, tr_error = None\<rparr>)"

definition transfer_try ::
  "runtime \<Rightarrow> transfer_env \<Rightarrow> string \<Rightarrow> real \<Rightarrow> (js_error + transfer_result) \<times> event list" where
  "transfer_try R env tokenSymbol amount =
     (case te_keys env of
        Some e \<Rightarrow> (Inl e, [])
      | None \<Rightarrow>
          (case te_blockhash env of
             Some e \<Rightarrow> (Inl e, [])
           | None \<Rightarrow>
               (case transfer_instructions env tokenSymbol amount of
                  Inl e \<Rightarrow> (Inl e, [])
                | Inr instructions \<Rightarrow>
                    (case te_sign env of
                       Inl e \<Rightarrow> (Inl e, [Instructions instructions])
                     | Inr hash \<Rightarrow>
                         (Inr (transfer_confirm R (te_confirm env) hash),
                          [Instructions instructions, Broadcast hash, ConfirmRequest hash])))))"

text \<open>\<open>transfer\<close>: an exception of the \<open>try\<close> block becomes a failed result.\<close>

definition transfer ::
  "runtime \<Rightarrow> transfer_env \<Rightarrow> string \<Rightarrow> real \<Rightarrow> transfer_result \<times> event list" where
  "transfer R env tokenSymbol amount =
     (let r = transfer_try R env tokenSymbol amount
      in case fst r of
           Inr result \<Rightarrow> (result, snd r)
         | Inl error \<Rightarrow>
             (\<lparr>tr_success = False, tr_signature = None, tr_error = Some (error_message error)\<rparr>,
              snd r))"

section \<open>The DCA driver (baseline-dca.js)\<close>

record holding =
  h_symbol :: string
  h_uiAmount :: real

record wallet =
  w_walletId :: string
  w_walletAddress :: string

text \<open>
  The services as one immediate execution meets them: what \<open>getOrCreateWallet\<close> returns
  or throws, what each poll of the balance gate gets from \<open>getBalances\<close>, what the
  \<open>getBalances\<close> after the gate returns or throws, the token directory for the lookup of
  the destination token, whether the destination account exists, and the services of
  \<open>swap\<close>.
\<close>

record dca_env =
  de_wallet :: "js_error + wallet"
  de_gate :: "nat \<Rightarrow> js_error + holding list"
  de_balances :: "js_error + holding list"
  de_tokens :: "js_error + token list option"
  de_accountExists :: bool
  de_swap :: swap_env

text \<open>
  \<open>waitForBalance(walletAddress, minimumSOL)\<close>, from poll \<open>i\<close> on. The loop has no bound:
  it returns at the first poll that finds at least \<open>minimumSOL\<close> of SOL, and sleeps a
  minute after every other poll, failed or short. The result is the balance found and the
  number of the poll that found it; \<open>None\<close> is a loop that never returns.
\<close>

definition sol_balance :: "holding list \<Rightarrow> real" where
  "sol_balance balances =
     (case List.find (\<lambda>t. h_symbol t = ''SOL'') balances of None \<Rightarrow> 0 | Some t \<Rightarrow> h_uiAmount t)"

partial_function (option) waitForBalance ::
  "(nat \<Rightarrow> js_error + holding list) \<Rightarrow> real \<Rightarrow> nat \<Rightarrow> (real \<times> nat) option" where
  "waitForBalance gate minimumSOL i =
     (case gate i of
        Inl e \<Rightarrow> waitForBalance gate minimumSOL (Suc i)
      | Inr balances \<Rightarrow>
          if sol_balance balances \<ge> minimumSOL then Some (sol_balance balances, i)
          else waitForBalance gate minimumSOL (Suc i))"

declare waitForBalance.simps [code]

text \<open>
  The result object of \<open>baselineFunction\<close>: the properties of the result of \<open>swap\<close> that
  the model keeps, or the error of an early return, with the execution type.
\<close>

record dca_result =
  dr_success :: bool
  dr_signature :: "string option"
  dr_error :: "string option"
  dr_errorCategory :: "string option"
  dr_executionType :: "string option"

definition dca_failed :: "string \<Rightarrow> dca_result" where
  "dca_failed msg =
     \<lparr>dr_success = False, dr_signature = None, dr_error = Some msg, dr_errorCategory = None,
      dr_executionType = Some ''immediate''\<rparr>"

text \<open>
  The immediate execution of \<open>baselineFunction(ownerAddress, fromToken, toToken, amount)\<close>
  (no schedule options; this is also the callback of every schedule the driver creates),
  after the balance gate has returned at poll \<open>polls\<close>: the \<open>try\<close> block from the second
  \<open>getBalances\<close> on. The status publications and log lines are left out.
\<close>

definition trade_after_gate ::
  "runtime \<Rightarrow> dca_env \<Rightarrow> string \<Rightarrow> string \<Rightarrow> real \<Rightarrow> nat \<Rightarrow> (js_error + dca_result) \<times> event list" where
  "trade_after_gate R env fromToken toToken amount polls =
     (let waited = replicate polls (Sleep 60000)
      in case de_balances env of
           Inl e \<Rightarrow> (Inl e, waited)
         | Inr balances \<Rightarrow>
             (case List.find (\<lambda>t. h_symbol t \<noteq> [] \<and> toUpperCase (h_symbol t) = toUpperCase fromToken)
                     balances of
                None \<Rightarrow> (Inr (dca_failed (''Wallet does not have '' @ fromToken)), waited)
              | Some tokenObj \<Rightarrow>
                  if h_uiAmount tokenObj < amount then
                    (Inr (dca_failed (''Insufficient '' @ fromToken @ '' balance. Available: ''
                                      @ rt_show R (h_uiAmount tokenObj) @ '', required: ''
                                      @ rt_show R amount)), waited)
                  else
                    (let toTokenResult = getTokenMintAddress (de_tokens env) toToken
                     in if \<not> mr_success toTokenResult then
                          (Inr (dca_failed (''Failed to get mint address for '' @ toToken @ '': ''
                                  @ (case mr_error toTokenResult of None \<Rightarrow> ''undefined'' | Some m \<Rightarrow> m))),
                           waited)
                        else if toUpperCase fromToken = ''SOL'' \<and> h_uiAmount tokenObj < 21 / 10000 then
                          (Inr (dca_failed (''Insufficient SOL for Jupiter swap operations. Need ''
                                  @ rt_toFixed R (21 / 10000 - h_uiAmount tokenObj) 6 @ '' SOL more'')),
                           waited)
                        else
                          (let swapResult = swap (de_swap env) fromToken toToken amount
                                 \<lparr>so_slippageBps = Some 150, so_priorityFee = Some ''auto'',
                                  so_maxRetries = Some 2, so_confirmTransaction = Some True\<rparr>
                           in (Inr \<lparr>dr_success = sr_success (fst swapResult),
                                    dr_signature = sr_signature (fst swapResult),
                                    dr_error = sr_error (fst swapResult),
                                    dr_errorCategory = sr_errorCategory (fst swapResult),
                                    dr_executionType = Some ''immediate''\<rparr>,
                               waited @ snd swapResult)))))"

text \<open>
  The whole immediate execution. The \<open>catch\<close> block of \<open>baselineFunction\<close> reads the
  variable \<open>wallet\<close>, which is declared inside the \<open>try\<close> block and so is not in scope
  there: whatever the \<open>try\<close> block throws, the \<open>catch\<close> block throws a ReferenceError
  in its place. \<open>None\<close> is an execution that never returns, \<open>Inl\<close> one that throws.
\<close>

definition baselineFunction ::
  "runtime \<Rightarrow> dca_env \<Rightarrow> string \<Rightarrow> string \<Rightarrow> real \<Rightarrow> ((js_error + dca_result) \<times> event list) option" where
  "baselineFunction R env fromToken toToken amount =
     (let caught = (\<lambda>r. case fst r of
                          Inl e \<Rightarrow> (Inl (ReferenceError ''wallet is not defined''), snd r)
                        | Inr res \<Rightarrow> r)
      in case de_wallet env of
           Inl e \<Rightarrow> Some (caught (Inl e, []))
         | Inr wallet \<Rightarrow>
             (case waitForBalance (de_gate env) (1 / 1000) 0 of
                None \<Rightarrow> None
              | Some (currentBalance, polls) \<Rightarrow>
                  Some (caught (trade_after_gate R env fromToken toToken amount polls))))"

text \<open>The requests to the quote endpoint among the events of an execution.\<close>

definition quote_requests :: "event list \<Rightarrow> event list" where
  "quote_requests evs = filter (\<lambda>e. case e of QuoteRequest n \<Rightarrow> True | _ \<Rightarrow> False) evs"

section \<open>Services for examples\<close>

text \<open>
  Services for examples: a directory with SOL and USDC, endpoints that answer the first
  attempt, a signer that returns the hash \<open>5h\<close>; a wallet whose gate opens at the first
  poll and that holds 1 SOL and 0 USDC.
\<close>

definition example_tokens :: "token list" where
  "example_tokens =
     [\<lparr>tk_symbol = ''SOL'', tk_address = ''So11'', tk_decimals = 9\<rparr>,
      \<lparr>tk_symbol = ''USDC'', tk_address = ''EPjF'', tk_decimals = 6\<rparr>]"

definition example_swap_env :: "confirmation \<Rightarrow> swap_env" where
  "example_swap_env conf =
     \<lparr>se_tokens = Inr (Some example_tokens),
      se_quote = (\<lambda>n. Json (JObj [(''outAmount'', JStr ''1000'')])),
      se_swap = (\<lambda>n. Json (JObj [(''swapTransaction'', JStr ''AQID'')])),
      se_deserialize = None,
      se_sign = Inr ''5h'',
      se_confirm = conf\<rparr>"

definition example_transfer_env :: "confirmation \<Rightarrow> transfer_env" where
  "example_transfer_env conf =
     \<lparr>te_keys = None, te_blockhash = None, te_tokens = Inr (Some example_tokens),
      te_accounts = None, te_toAccountExists = False, te_sign = Inr ''5h'', te_confirm = conf\<rparr>"

definition example_holdings :: "holding list" where
  "example_holdings = [\<lparr>h_symbol = ''SOL'', h_uiAmount = 1\<rparr>, \<lparr>h_symbol = ''USDC'', h_uiAmount = 0\<rparr>]"

definition example_dca_env :: dca_env where
  "example_dca_env =
     \<lparr>de_wallet = Inr \<lparr>w_walletId = ''w1'', w_walletAddress = ''addr''\<rparr>,
      de_gate = (\<lambda>i. Inr example_holdings),
      de_balances = Inr example_holdings,
      de_tokens = Inr (Some example_tokens),
      de_accountExists = True,
      de_swap = example_swap_env ConfirmOk\<rparr>"

chapter \<open>Properties\<close>

section \<open>The log buffer\<close>

lemma Logger_log_room:
  "length ls < MAX_LOGS \<Longrightarrow>
   Logger_log ts rid m l ls = ls @ [entry_of (ts, rid, m, l)]"
  by (simp add: Logger_log_def Let_def entry_of_def)

lemma Logger_log_full:
  "length ls = MAX_LOGS \<Longrightarrow>
   Logger_log ts rid m l ls = tl ls @ [entry_of (ts, rid, m, l)]"
  by (cases ls) (simp_all add: Logger_log_def Let_def entry_of_def MAX_LOGS_def)

lemma Logger_log_length:
  assumes "length ls \<le> MAX_LOGS"
  shows "length (Logger_log ts rid m l ls) \<le> MAX_LOGS"
proof (cases "length ls = MAX_LOGS")
  case True
  then show ?thesis by (simp add: Logger_log_full MAX_LOGS_def)
next
  case False
  with assms have "length ls < MAX_LOGS" by simp
  then show ?thesis by (simp add: Logger_log_room)
qed

lemma log_all_drop:
  "length ls \<le> MAX_LOGS \<Longrightarrow>
   log_all as ls = drop (length ls + length as - MAX_LOGS) (ls @ map entry_of as)"
proof (induction as arbitrary: ls)
  case Nil
  then show ?case by simp
next
  case (Cons a as)
  obtain ts rid m l where a: "a = (ts, rid, m, l)" by (cases a) auto
  let ?ls' = "Logger_log ts rid m l ls"
  have len': "length ?ls' \<le> MAX_LOGS" using Cons.prems by (rule Logger_log_length)
  have "log_all (a # as) ls = log_all as ?ls'" by (simp add: a)
  also have "\<dots> = drop (length ?ls' + length as - MAX_LOGS) (?ls' @ map entry_of as)"
    using Cons.IH [OF len'] .
  also have "\<dots> = drop (length ls + length (a # as) - MAX_LOGS) (ls @ map entry_of (a # as))"
  proof (cases "length ls < MAX_LOGS")
    case True
    then have "?ls' = ls @ [entry_of a]" by (simp add: Logger_log_room a)
    then show ?thesis by simp
  next
    case False
    with Cons.prems have full: "length ls = MAX_LOGS" by simp
    then obtain x xs where xs: "ls = x # xs" by (cases ls) (auto simp: MAX_LOGS_def)
    have l': "?ls' = xs @ [entry_of a]" using full by (simp add: Logger_log_full a xs)
    have n: "Suc (length xs) = MAX_LOGS" using full xs by simp
    have "drop (length ?ls' + length as - MAX_LOGS) (?ls' @ map entry_of as)
          = drop (length as) (xs @ entry_of a # map entry_of as)"
      unfolding l' using n by simp
    also have "\<dots> = drop (length ls + length (a # as) - MAX_LOGS) (ls @ map entry_of (a # as))"
      unfolding xs using n by simp
    finally show ?thesis .
  qed
  finally show ?case .
qed

text \<open>
  C5. Starting from the empty buffer of the module, after any sequence of appends the
  buffer holds at most 1000 entries, and they are the last (at most) 1000 entries
  appended, in the order of their appends. An append to a buffer that holds 1000 entries
  drops the oldest entry and puts the new one last.
\<close>

theorem log_buffer_bounded_fifo:
  "length (log_all as []) \<le> MAX_LOGS
   \<and> log_all as [] = drop (length as - MAX_LOGS) (map entry_of as)
   \<and> (length ls = MAX_LOGS \<longrightarrow>
        Logger_log ts rid m l ls = tl ls @ [entry_of (ts, rid, m, l)])"
proof -
  have eq: "log_all as [] = drop (length as - MAX_LOGS) (map entry_of as)"
    using log_all_drop [of "[]" as] by simp
  have "length (log_all as []) \<le> MAX_LOGS"
    by (simp add: eq)
  moreover have "length ls = MAX_LOGS \<longrightarrow>
        Logger_log ts rid m l ls = tl ls @ [entry_of (ts, rid, m, l)]"
    by (simp add: Logger_log_full)
  ultimately show ?thesis using eq by simp
qed

theorem log_buffer_bounded_fifo_witness:
  "length (log_all [(''t1'', 1, ''a'', ''info''), (''t2'', 2, ''b'', ''error'')] []) \<le> MAX_LOGS
   \<and> log_all [(''t1'', 1, ''a'', ''info''), (''t2'', 2, ''b'', ''error'')] []
       = [entry_of (''t1'', 1, ''a'', ''info''), entry_of (''t2'', 2, ''b'', ''error'')]
   \<and> length (replicate 1000 (entry_of (''t0'', 0, ''old'', ''info''))) = MAX_LOGS
   \<and> Logger_log ''t3'' 3 ''new'' ''warn'' (replicate 1000 (entry_of (''t0'', 0, ''old'', ''info'')))
       = replicate 999 (entry_of (''t0'', 0, ''old'', ''info'')) @ [entry_of (''t3'', 3, ''new'', ''warn'')]"
  using log_buffer_bounded_fifo [of "[(''t1'', 1, ''a'', ''info''), (''t2'', 2, ''b'', ''error'')]"
      "replicate 1000 (entry_of (''t0'', 0, ''old'', ''info''))" "''t3''" 3 "''new''" "''warn''"]
  by (simp add: MAX_LOGS_def)

section \<open>Publishing a status\<close>

text \<open>
  C9. A publish with \<open>shouldLog = false\<close> replaces the snapshot by the new stage, message,
  success value, details and schedule info (with the time of the publish) and changes
  nothing else: the log buffer is the one before. A publish with \<open>shouldLog = true\<close>
  replaces the snapshot in the same way and makes exactly one append to the log buffer:
  the line of the stage, at level error when success is false and info otherwise.
\<close>

theorem updateStatus_shouldLog:
  "updateStatus ts ts' rid stage message success details scheduleInfo False s
     = s\<lparr>currentStatus :=
          \<lparr>st_stage = stage, st_message = message, st_timestamp = ts, st_success = success,
           st_details = details, st_schedule = scheduleInfo\<rparr>\<rparr>
   \<and> logs (updateStatus ts ts' rid stage message success details scheduleInfo False s) = logs s
   \<and> currentStatus (updateStatus ts ts' rid stage message success details scheduleInfo True s)
       = \<lparr>st_stage = stage, st_message = message, st_timestamp = ts, st_success = success,
          st_details = details, st_schedule = scheduleInfo\<rparr>
   \<and> logs (updateStatus ts ts' rid stage message success details scheduleInfo True s)
       = Logger_log ts' rid
           ((if success = Some True then check_mark @ '' '' else []) @ ''['' @ toUpperCase stage @ ''] '' @ message)
           (if success = Some False then ''error'' else ''info'') (logs s)"
  by (simp add: updateStatus_def Let_def Logger_error_def Logger_info_def)

theorem updateStatus_shouldLog_witness:
  "logs (updateStatus ''t1'' ''t2'' 7 ''waiting_next_execution'' ''Next execution in: 4m 55s'' None
           (JObj []) JNull False
           \<lparr>logs = [entry_of (''t0'', 1, ''started'', ''info'')],
            currentStatus = \<lparr>st_stage = ''idle'', st_message = ''System ready'', st_timestamp = ''t0'',
                              st_success = None, st_details = JObj [], st_schedule = JNull\<rparr>\<rparr>)
     = [entry_of (''t0'', 1, ''started'', ''info'')]
   \<and> st_stage (currentStatus (updateStatus ''t1'' ''t2'' 7 ''waiting_next_execution''
           ''Next execution in: 4m 55s'' None (JObj []) JNull False
           \<lparr>logs = [entry_of (''t0'', 1, ''started'', ''info'')],
            currentStatus = \<lparr>st_stage = ''idle'', st_message = ''System ready'', st_timestamp = ''t0'',
                              st_success = None, st_details = JObj [], st_schedule = JNull\<rparr>\<rparr>))
     = ''waiting_next_execution''
   \<and> logs (updateStatus ''t1'' ''t2'' 7 ''swapping'' ''failed'' (Some False) (JObj []) JNull True
           \<lparr>logs = [entry_of (''t0'', 1, ''started'', ''info'')],
            currentStatus = \<lparr>st_stage = ''idle'', st_message = ''System ready'', st_timestamp = ''t0'',
                              st_success = None, st_details = JObj [], st_schedule = JNull\<rparr>\<rparr>)
     = [entry_of (''t0'', 1, ''started'', ''info''),
        entry_of (''t2'', 7, ''['' @ toUpperCase ''swapping'' @ ''] failed'', ''error'')]"
  using updateStatus_shouldLog [of "''t1''" "''t2''" 7 "''waiting_next_execution''"
      "''Next execution in: 4m 55s''" None "JObj []" JNull
      "\<lparr>logs = [entry_of (''t0'', 1, ''started'', ''info'')],
            currentStatus = \<lparr>st_stage = ''idle'', st_message = ''System ready'', st_timestamp = ''t0'',
                              st_success = None, st_details = JObj [], st_schedule = JNull\<rparr>\<rparr>"]
    updateStatus_shouldLog [of "''t1''" "''t2''" 7 "''swapping''" "''failed''" "Some False" "JObj []" JNull
      "\<lparr>logs = [entry_of (''t0'', 1, ''started'', ''info'')],
            currentStatus = \<lparr>st_stage = ''idle'', st_message = ''System ready'', st_timestamp = ''t0'',
                              st_success = None, st_details = JObj [], st_schedule = JNull\<rparr>\<rparr>"]
  by (simp add: Logger_log_def MAX_LOGS_def entry_of_def)

section \<open>The price condition\<close>

lemma checkPriceCondition_number:
  "checkPriceCondition R (JNum n) tok target isAbove =
     \<lparr>pc_success = True, pc_error = None, pc_currentPrice = Some (JNum n),
      pc_targetPrice = Some target,
      pc_conditionMet = (if isAbove then n \<ge> target else n \<le> target),
      pc_condition = Some (if isAbove then ''above'' else ''below''), pc_timeout = None\<rparr>"
  by (simp add: checkPriceCondition_def checkPriceCondition_try_def js_ge_def js_le_def)

lemma checkPriceCondition_error_object:
  "map_of fs ''success'' = Some (JBool False) \<Longrightarrow>
   checkPriceCondition R (JObj fs) tok target isAbove =
     price_check_failed (''Failed to get '' @ tok @ '' price: '' @
       ToString R (case map_of fs ''error'' of None \<Rightarrow> JUndefined | Some v \<Rightarrow> v))"
  by (simp add: checkPriceCondition_def checkPriceCondition_try_def)

lemma checkPriceCondition_price_object:
  "map_of fs ''success'' \<noteq> Some (JBool False) \<Longrightarrow> map_of fs ''price'' = Some p \<Longrightarrow> truthy p \<Longrightarrow>
   checkPriceCondition R (JObj fs) tok target isAbove =
     \<lparr>pc_success = True, pc_error = None, pc_currentPrice = Some p,
      pc_targetPrice = Some target,
      pc_conditionMet = (if isAbove then js_ge (rt_parse R) p target else js_le (rt_parse R) p target),
      pc_condition = Some (if isAbove then ''above'' else ''below''), pc_timeout = None\<rparr>"
  by (auto simp add: checkPriceCondition_def checkPriceCondition_try_def split: option.splits)

lemma checkPriceCondition_falsy_price:
  "map_of fs ''success'' \<noteq> Some (JBool False) \<Longrightarrow>
   \<not> truthy (case map_of fs ''price'' of None \<Rightarrow> JUndefined | Some v \<Rightarrow> v) \<Longrightarrow>
   checkPriceCondition R (JObj fs) tok target isAbove =
     price_check_failed (''Invalid price format for '' @ tok)"
  by (auto simp add: checkPriceCondition_def checkPriceCondition_try_def split: option.splits)

lemma checkPriceCondition_success_shape:
  assumes "pc_success (checkPriceCondition R v tok target isAbove)"
  shows "(\<exists>n. v = JNum n) \<or>
         (\<exists>fs p. v = JObj fs \<and> map_of fs ''success'' \<noteq> Some (JBool False)
                  \<and> map_of fs ''price'' = Some p \<and> truthy p)"
proof (cases v)
  case (JObj fs)
  show ?thesis
  proof (cases "map_of fs ''success'' = Some (JBool False)")
    case True
    with assms JObj show ?thesis
      by (simp add: checkPriceCondition_error_object price_check_failed_def)
  next
    case False
    show ?thesis
    proof (cases "truthy (case map_of fs ''price'' of None \<Rightarrow> JUndefined | Some v \<Rightarrow> v)")
      case True
      then obtain p where "map_of fs ''price'' = Some p" "truthy p"
        by (cases "map_of fs ''price''") auto
      with False JObj show ?thesis by simp
    next
      case f: False
      with assms JObj False show ?thesis
        by (simp add: checkPriceCondition_falsy_price price_check_failed_def)
    qed
  qed
qed (use assms in \<open>simp_all add: checkPriceCondition_def checkPriceCondition_try_def price_check_failed_def\<close>)

lemma checkPriceCondition_failure:
  assumes "\<not> pc_success (checkPriceCondition R v tok target isAbove)"
  shows "\<not> pc_conditionMet (checkPriceCondition R v tok target isAbove)
         \<and> pc_error (checkPriceCondition R v tok target isAbove) \<noteq> None"
  using assms
  by (auto simp add: checkPriceCondition_def checkPriceCondition_try_def price_check_failed_def Let_def
      split: sum.splits if_splits)

text \<open>
  C4, as amended. \<open>checkPriceCondition\<close> on a feed result: a bare number \<open>n\<close> gives
  success with \<open>conditionMet = (n \<ge> target)\<close> for above and \<open>(n \<le> target)\<close> for below; an
  object whose \<open>success\<close> is not \<open>false\<close> and whose \<open>price\<close> is truthy gives success with
  that price as current price, compared in the same way (for a number \<open>q \<noteq> 0\<close>:
  \<open>q \<ge> target\<close>, \<open>q \<le> target\<close>); an object with \<open>success: false\<close> gives
  \<open>success = false\<close> and \<open>conditionMet = false\<close> with the feed's error in the message;
  every other value gives an error result with \<open>conditionMet = false\<close>.
\<close>

theorem checkPriceCondition_shapes:
  "checkPriceCondition R (JNum n) tok target isAbove =
     \<lparr>pc_success = True, pc_error = None, pc_currentPrice = Some (JNum n),
      pc_targetPrice = Some target,
      pc_conditionMet = (if isAbove then n \<ge> target else n \<le> target),
      pc_condition = Some (if isAbove then ''above'' else ''below''), pc_timeout = None\<rparr>
   \<and> (map_of fs ''success'' \<noteq> Some (JBool False) \<and> map_of fs ''price'' = Some p \<and> truthy p \<longrightarrow>
        checkPriceCondition R (JObj fs) tok target isAbove =
          \<lparr>pc_success = True, pc_error = None, pc_currentPrice = Some p,
           pc_targetPrice = Some target,
           pc_conditionMet = (if isAbove then js_ge (rt_parse R) p target else js_le (rt_parse R) p target),
           pc_condition = Some (if isAbove then ''above'' else ''below''), pc_timeout = None\<rparr>)
   \<and> (map_of fs ''success'' \<noteq> Some (JBool False) \<and> map_of fs ''price'' = Some (JNum q) \<and> q \<noteq> 0 \<longrightarrow>
        pc_success (checkPriceCondition R (JObj fs) tok target isAbove)
        \<and> pc_conditionMet (checkPriceCondition R (JObj fs) tok target isAbove)
            = (if isAbove then q \<ge> target else q \<le> target))
   \<and> (map_of es ''success'' = Some (JBool False) \<longrightarrow>
        checkPriceCondition R (JObj es) tok target isAbove =
          \<lparr>pc_success = False,
           pc_error = Some (''Failed to get '' @ tok @ '' price: '' @
              ToString R (case map_of es ''error'' of None \<Rightarrow> JUndefined | Some v \<Rightarrow> v)),
           pc_currentPrice = None, pc_targetPrice = None, pc_conditionMet = False,
           pc_condition = None, pc_timeout = None\<rparr>)
   \<and> ((\<forall>m. v \<noteq> JNum m) \<and>
       (\<forall>gs g. v = JObj gs \<and> map_of gs ''price'' = Some g \<and> truthy g
                \<longrightarrow> map_of gs ''success'' = Some (JBool False)) \<longrightarrow>
        \<not> pc_success (checkPriceCondition R v tok target isAbove)
        \<and> \<not> pc_conditionMet (checkPriceCondition R v tok target isAbove)
        \<and> pc_error (checkPriceCondition R v tok target isAbove) \<noteq> None)"
proof (intro conjI impI)
  show "checkPriceCondition R (JNum n) tok target isAbove =
     \<lparr>pc_success = True, pc_error = None, pc_currentPrice = Some (JNum n),
      pc_targetPrice = Some target,
      pc_conditionMet = (if isAbove then n \<ge> target else n \<le> target),
      pc_condition = Some (if isAbove then ''above'' else ''below''), pc_timeout = None\<rparr>"
    by (rule checkPriceCondition_number)
next
  assume "map_of fs ''success'' \<noteq> Some (JBool False) \<and> map_of fs ''price'' = Some p \<and> truthy p"
  then show "checkPriceCondition R (JObj fs) tok target isAbove =
          \<lparr>pc_success = True, pc_error = None, pc_currentPrice = Some p,
           pc_targetPrice = Some target,
           pc_conditionMet = (if isAbove then js_ge (rt_parse R) p target else js_le (rt_parse R) p target),
           pc_condition = Some (if isAbove then ''above'' else ''below''), pc_timeout = None\<rparr>"
    by (simp add: checkPriceCondition_price_object)
next
  assume a: "map_of fs ''success'' \<noteq> Some (JBool False) \<and> map_of fs ''price'' = Some (JNum q) \<and> q \<noteq> 0"
  then have r: "checkPriceCondition R (JObj fs) tok target isAbove =
          \<lparr>pc_success = True, pc_error = None, pc_currentPrice = Some (JNum q),
           pc_targetPrice = Some target,
           pc_conditionMet = (if isAbove then js_ge (rt_parse R) (JNum q) target
                              else js_le (rt_parse R) (JNum q) target),
           pc_condition = Some (if isAbove then ''above'' else ''below''), pc_timeout = None\<rparr>"
    by (simp add: checkPriceCondition_price_object)
  show "pc_success (checkPriceCondition R (JObj fs) tok target isAbove)"
    by (simp add: r)
  show "pc_conditionMet (checkPriceCondition R (JObj fs) tok target isAbove)
            = (if isAbove then q \<ge> target else q \<le> target)"
    by (simp add: r js_ge_def js_le_def)
next
  assume "map_of es ''success'' = Some (JBool False)"
  then show "checkPriceCondition R (JObj es) tok target isAbove =
          \<lparr>pc_success = False,
           pc_error = Some (''Failed to get '' @ tok @ '' price: '' @
              ToString R (case map_of es ''error'' of None \<Rightarrow> JUndefined | Some v \<Rightarrow> v)),
           pc_currentPrice = None, pc_targetPrice = None, pc_conditionMet = False,
           pc_condition = None, pc_timeout = None\<rparr>"
    by (simp add: checkPriceCondition_error_object price_check_failed_def)
next
  assume other: "(\<forall>m. v \<noteq> JNum m) \<and>
       (\<forall>gs g. v = JObj gs \<and> map_of gs ''price'' = Some g \<and> truthy g
                \<longrightarrow> map_of gs ''success'' = Some (JBool False))"
  have ns: "\<not> pc_success (checkPriceCondition R v tok target isAbove)"
  proof
    assume "pc_success (checkPriceCondition R v tok target isAbove)"
    from checkPriceCondition_success_shape [OF this] other show False by blast
  qed
  then show "\<not> pc_success (checkPriceCondition R v tok target isAbove)" .
  from checkPriceCondition_failure [OF ns]
  show "\<not> pc_conditionMet (checkPriceCondition R v tok target isAbove)"
    and "pc_error (checkPriceCondition R v tok target isAbove) \<noteq> None"
    by simp_all
qed

theorem checkPriceCondition_shapes_witness:
  "pc_conditionMet (checkPriceCondition example_runtime (JNum 105) ''SOL'' 100 True)
   \<and> \<not> pc_conditionMet (checkPriceCondition example_runtime (JNum 95) ''SOL'' 100 True)
   \<and> pc_conditionMet (checkPriceCondition example_runtime (JNum 100) ''SOL'' 100 True)
   \<and> pc_conditionMet (checkPriceCondition example_runtime (JNum 100) ''SOL'' 100 False)
   \<and> pc_currentPrice (checkPriceCondition example_runtime (JObj [(''price'', JNum 105)]) ''SOL'' 100 True)
       = Some (JNum 105)
   \<and> pc_conditionMet (checkPriceCondition example_runtime (JObj [(''price'', JNum 105)]) ''SOL'' 100 True)
   \<and> checkPriceCondition example_runtime (JObj [(''success'', JBool False), (''error'', JStr ''x'')])
        ''SOL'' 100 True
      = \<lparr>pc_success = False, pc_error = Some ''Failed to get SOL price: x'',
         pc_currentPrice = None, pc_targetPrice = None, pc_conditionMet = False,
         pc_condition = None, pc_timeout = None\<rparr>
   \<and> \<not> pc_success (checkPriceCondition example_runtime (JStr ''105'') ''SOL'' 100 True)
   \<and> \<not> pc_conditionMet (checkPriceCondition example_runtime (JStr ''105'') ''SOL'' 100 True)"
  using checkPriceCondition_shapes [of example_runtime 105 "''SOL''" 100 True
      "[(''price'', JNum 105)]" "JNum 105" 105 "[(''success'', JBool False), (''error'', JStr ''x'')]"
      "JStr ''105''"]
    checkPriceCondition_shapes [of example_runtime 95 "''SOL''" 100 True
      "[(''price'', JNum 105)]" "JNum 105" 105 "[(''success'', JBool False), (''error'', JStr ''x'')]"
      "JStr ''105''"]
    checkPriceCondition_shapes [of example_runtime 100 "''SOL''" 100 True
      "[(''price'', JNum 105)]" "JNum 105" 105 "[(''success'', JBool False), (''error'', JStr ''x'')]"
      "JStr ''105''"]
    checkPriceCondition_shapes [of example_runtime 100 "''SOL''" 100 False
      "[(''price'', JNum 105)]" "JNum 105" 105 "[(''success'', JBool False), (''error'', JStr ''x'')]"
      "JStr ''105''"]
  by simp

theorem checkPriceCondition_price_zero_counterexample:
  "\<not> (pc_success (checkPriceCondition example_runtime (JObj [(''price'', JNum 0)]) ''SOL'' 100 False)
      \<and> pc_conditionMet (checkPriceCondition example_runtime (JObj [(''price'', JNum 0)]) ''SOL'' 100 False)
          = ((0::real) \<le> 100))"
  by (simp add: checkPriceCondition_def checkPriceCondition_try_def price_check_failed_def)

text \<open>
  What \<open>price\<close> hands to the condition check: the error object of the market data as it
  is, and otherwise the \<open>price\<close> property of the data, whatever it is.
\<close>

lemma price_of_data:
  "price (JObj fs) =
     (if map_of fs ''success'' = Some (JBool False) then JObj fs
      else (case map_of fs ''price'' of None \<Rightarrow> JUndefined | Some p \<Rightarrow> p))"
  by (simp add: price_def split: option.splits)

lemma price_of_missing_data:
  "price JUndefined =
     JObj [(''success'', JBool False),
           (''error'', JStr (''Cannot read properties of undefined (reading '' @ [CHR 0x27]
                             @ ''success'' @ [CHR 0x27] @ '')''))]"
  by (simp add: price_def)

text \<open>
  C10. An object whose \<open>success\<close> is not \<open>false\<close> and whose \<open>price\<close> is falsy (\<open>0\<close>, the
  empty string, \<open>null\<close>, \<open>false\<close>, or no price at all) is not evaluated against a price:
  the result is the invalid-price-format error, with \<open>success = false\<close> and
  \<open>conditionMet = false\<close>, for either direction and any target.
\<close>

theorem checkPriceCondition_falsy_price_rejected:
  "map_of fs ''success'' \<noteq> Some (JBool False) \<Longrightarrow>
   \<not> truthy (case map_of fs ''price'' of None \<Rightarrow> JUndefined | Some v \<Rightarrow> v) \<Longrightarrow>
   checkPriceCondition R (JObj fs) tok target isAbove =
     \<lparr>pc_success = False, pc_error = Some (''Invalid price format for '' @ tok),
      pc_currentPrice = None, pc_targetPrice = None, pc_conditionMet = False,
      pc_condition = None, pc_timeout = None\<rparr>"
  by (simp add: checkPriceCondition_falsy_price price_check_failed_def)

theorem checkPriceCondition_falsy_price_rejected_witness:
  "map_of [(''price'', JNum 0)] ''success'' \<noteq> Some (JBool False)
   \<and> \<not> truthy (case map_of [(''price'', JNum 0)] ''price'' of None \<Rightarrow> JUndefined | Some v \<Rightarrow> v)
   \<and> checkPriceCondition example_runtime (JObj [(''price'', JNum 0)]) ''SOL'' 100 False =
     \<lparr>pc_success = False, pc_error = Some ''Invalid price format for SOL'',
      pc_currentPrice = None, pc_targetPrice = None, pc_conditionMet = False,
      pc_condition = None, pc_timeout = None\<rparr>"
  using checkPriceCondition_falsy_price_rejected [of "[(''price'', JNum 0)]" example_runtime "''SOL''" 100 False]
  by simp

section \<open>Waiting for a price condition\<close>

lemma wait_loop_expired:
  "\<not> elapsed < maxWaitTime \<Longrightarrow>
   wait_loop R feed tok target isAbove maxWaitTime i elapsed = (timeout_result, [])"
  by (subst wait_loop.simps) simp

lemma wait_loop_met:
  assumes "elapsed < maxWaitTime"
    and "pc_success (checkPriceCondition R (fst (feed i)) tok target isAbove)"
    and "pc_conditionMet (checkPriceCondition R (fst (feed i)) tok target isAbove)"
  shows "wait_loop R feed tok target isAbove maxWaitTime i elapsed =
     (checkPriceCondition R (fst (feed i)) tok target isAbove,
      [(elapsed, checkPriceCondition R (fst (feed i)) tok target isAbove)])"
  using assms by (subst wait_loop.simps) (simp add: Let_def)

lemma wait_loop_continues:
  assumes "elapsed < maxWaitTime"
    and "\<not> (pc_success (checkPriceCondition R (fst (feed i)) tok target isAbove)
           \<and> pc_conditionMet (checkPriceCondition R (fst (feed i)) tok target isAbove))"
  shows "wait_loop R feed tok target isAbove maxWaitTime i elapsed =
     (fst (wait_loop R feed tok target isAbove maxWaitTime (Suc i) (elapsed + snd (feed i) + checkInterval)),
      (elapsed, checkPriceCondition R (fst (feed i)) tok target isAbove)
        # snd (wait_loop R feed tok target isAbove maxWaitTime (Suc i) (elapsed + snd (feed i) + checkInterval)))"
  using assms by (subst wait_loop.simps) (auto simp add: Let_def)

lemma wait_loop_cases [case_names expired met continues]:
  assumes "\<And>i elapsed. \<not> elapsed < maxWaitTime \<Longrightarrow> P i elapsed"
    and "\<And>i elapsed. elapsed < maxWaitTime \<Longrightarrow>
           pc_success (checkPriceCondition R (fst (feed i)) tok target isAbove) \<Longrightarrow>
           pc_conditionMet (checkPriceCondition R (fst (feed i)) tok target isAbove) \<Longrightarrow> P i elapsed"
    and "\<And>i elapsed. elapsed < maxWaitTime \<Longrightarrow>
           \<not> (pc_success (checkPriceCondition R (fst (feed i)) tok target isAbove)
              \<and> pc_conditionMet (checkPriceCondition R (fst (feed i)) tok target isAbove)) \<Longrightarrow>
           P (Suc i) (elapsed + snd (feed i) + checkInterval) \<Longrightarrow> P i elapsed"
  shows "P i elapsed"
proof (induction "maxWaitTime - elapsed" arbitrary: i elapsed rule: less_induct)
  case less
  show ?case
  proof (cases "elapsed < maxWaitTime")
    case False
    then show ?thesis by (rule assms(1))
  next
    case True
    show ?thesis
    proof (cases "pc_success (checkPriceCondition R (fst (feed i)) tok target isAbove)
                  \<and> pc_conditionMet (checkPriceCondition R (fst (feed i)) tok target isAbove)")
      case met: True
      with True show ?thesis by (simp add: assms(2))
    next
      case False
      have "maxWaitTime - (elapsed + snd (feed i) + checkInterval) < maxWaitTime - elapsed"
        using True by (simp add: checkInterval_def)
      then have "P (Suc i) (elapsed + snd (feed i) + checkInterval)"
        by (rule less)
      then show ?thesis using True False by (rule assms(3) [rotated 2])
    qed
  qed
qed


lemma poll_not_timeout:
  "pc_timeout (checkPriceCondition R v tok target isAbove) = None"
  by (auto simp add: checkPriceCondition_def checkPriceCondition_try_def price_check_failed_def Let_def
      split: sum.splits)

lemma timeout_result_not_settled: "\<not> settled timeout_result"
  by (simp add: settled_def timeout_result_def)

lemma lag_sum_shift:
  "(\<Sum>k<Suc n. snd (feed (i + k)) + checkInterval)
     = snd (feed i) + checkInterval + (\<Sum>k<n. snd (feed (Suc i + k)) + checkInterval)"
  by (simp add: sum.lessThan_Suc_shift del: sum.lessThan_Suc)

lemma trace_polls:
  "j < length (snd (wait_loop R feed tok target isAbove maxWaitTime i elapsed)) \<Longrightarrow>
   snd (snd (wait_loop R feed tok target isAbove maxWaitTime i elapsed) ! j)
     = checkPriceCondition R (fst (feed (i + j))) tok target isAbove
   \<and> fst (snd (wait_loop R feed tok target isAbove maxWaitTime i elapsed) ! j)
     = elapsed + (\<Sum>k<j. snd (feed (i + k)) + checkInterval)
   \<and> fst (snd (wait_loop R feed tok target isAbove maxWaitTime i elapsed) ! j) < maxWaitTime"
proof (induction i elapsed arbitrary: j rule: wait_loop_cases
    [where maxWaitTime = maxWaitTime and R = R and feed = feed and tok = tok
       and target = target and isAbove = isAbove])
  case (expired i elapsed)
  then show ?case by (simp add: wait_loop_expired)
next
  case (met i elapsed)
  then show ?case by (simp add: wait_loop_met)
next
  case (continues i elapsed)
  show ?case
  proof (cases j)
    case 0
    with continues(1,2) show ?thesis by (simp add: wait_loop_continues)
  next
    case (Suc j')
    with continues(4) have "j' < length (snd (wait_loop R feed tok target isAbove maxWaitTime (Suc i)
        (elapsed + snd (feed i) + checkInterval)))"
      using continues(1,2) by (simp add: wait_loop_continues)
    from continues(3) [OF this] show ?thesis
      using continues(1,2) Suc by (simp add: wait_loop_continues lag_sum_shift del: sum.lessThan_Suc)
  qed
qed

lemma trace_outcome:
  "(fst (wait_loop R feed tok target isAbove maxWaitTime i elapsed) = timeout_result
      \<and> (\<forall>p \<in> set (snd (wait_loop R feed tok target isAbove maxWaitTime i elapsed)). \<not> settled (snd p))
      \<and> maxWaitTime \<le> elapsed +
           (\<Sum>k<length (snd (wait_loop R feed tok target isAbove maxWaitTime i elapsed)).
               snd (feed (i + k)) + checkInterval))
   \<or> (snd (wait_loop R feed tok target isAbove maxWaitTime i elapsed) \<noteq> []
      \<and> fst (wait_loop R feed tok target isAbove maxWaitTime i elapsed)
          = snd (last (snd (wait_loop R feed tok target isAbove maxWaitTime i elapsed)))
      \<and> settled (fst (wait_loop R feed tok target isAbove maxWaitTime i elapsed))
      \<and> (\<forall>p \<in> set (butlast (snd (wait_loop R feed tok target isAbove maxWaitTime i elapsed))).
            \<not> settled (snd p)))"
proof (induction i elapsed rule: wait_loop_cases
    [where maxWaitTime = maxWaitTime and R = R and feed = feed and tok = tok
       and target = target and isAbove = isAbove])
  case (expired i elapsed)
  then show ?case by (simp add: wait_loop_expired)
next
  case (met i elapsed)
  then show ?case by (simp add: wait_loop_met settled_def)
next
  case (continues i elapsed)
  let ?W' = "wait_loop R feed tok target isAbove maxWaitTime (Suc i) (elapsed + snd (feed i) + checkInterval)"
  have W: "wait_loop R feed tok target isAbove maxWaitTime i elapsed =
     (fst ?W', (elapsed, checkPriceCondition R (fst (feed i)) tok target isAbove) # snd ?W')"
    using continues(1,2) by (rule wait_loop_continues)
  have ns: "\<not> settled (checkPriceCondition R (fst (feed i)) tok target isAbove)"
    using continues(2) by (simp add: settled_def)
  from continues(3) show ?case
  proof
    assume a: "fst ?W' = timeout_result \<and> (\<forall>p\<in>set (snd ?W'). \<not> settled (snd p)) \<and>
      maxWaitTime \<le> elapsed + snd (feed i) + checkInterval +
        (\<Sum>k<length (snd ?W'). snd (feed (Suc i + k)) + checkInterval)"
    then show ?thesis unfolding W using ns
      by (simp add: lag_sum_shift del: sum.lessThan_Suc)
  next
    assume b: "snd ?W' \<noteq> [] \<and> fst ?W' = snd (last (snd ?W')) \<and> settled (fst ?W') \<and>
      (\<forall>p\<in>set (butlast (snd ?W')). \<not> settled (snd p))"
    then have "snd ?W' \<noteq> []" and "fst ?W' = snd (last (snd ?W'))" and "settled (fst ?W')"
      and "\<forall>p\<in>set (butlast (snd ?W')). \<not> settled (snd p)"
      by blast+
    then show ?thesis unfolding W using ns by (intro disjI2) simp
  qed
qed

lemma trace_continues:
  "j < length (snd (wait_loop R feed tok target isAbove maxWaitTime i elapsed)) \<Longrightarrow>
   \<not> settled (snd (snd (wait_loop R feed tok target isAbove maxWaitTime i elapsed) ! j)) \<Longrightarrow>
   fst (snd (wait_loop R feed tok target isAbove maxWaitTime i elapsed) ! j)
      + snd (feed (i + j)) + checkInterval < maxWaitTime \<Longrightarrow>
   Suc j < length (snd (wait_loop R feed tok target isAbove maxWaitTime i elapsed))"
proof (induction i elapsed arbitrary: j rule: wait_loop_cases
    [where maxWaitTime = maxWaitTime and R = R and feed = feed and tok = tok
       and target = target and isAbove = isAbove])
  case (expired i elapsed)
  then show ?case by (simp add: wait_loop_expired)
next
  case (met i elapsed)
  then show ?case by (simp add: wait_loop_met settled_def)
next
  case (continues i elapsed)
  let ?W' = "wait_loop R feed tok target isAbove maxWaitTime (Suc i) (elapsed + snd (feed i) + checkInterval)"
  have W: "wait_loop R feed tok target isAbove maxWaitTime i elapsed =
     (fst ?W', (elapsed, checkPriceCondition R (fst (feed i)) tok target isAbove) # snd ?W')"
    using continues(1,2) by (rule wait_loop_continues)
  show ?case
  proof (cases j)
    case 0
    with continues(6) have later: "elapsed + snd (feed i) + checkInterval < maxWaitTime"
      by (simp add: W)
    have "snd ?W' \<noteq> []"
    proof (cases "settled (checkPriceCondition R (fst (feed (Suc i))) tok target isAbove)")
      case True
      with later show ?thesis by (simp add: wait_loop_met settled_def)
    next
      case False
      with later show ?thesis by (simp add: wait_loop_continues settled_def)
    qed
    with 0 show ?thesis by (simp add: W)
  next
    case (Suc j')
    have "Suc j' < length (snd ?W')"
      using continues(4,5,6) Suc by (intro continues(3)) (simp_all add: W)
    with Suc show ?thesis by (simp add: W)
  qed
qed


text \<open>
  C8. \<open>waitForPriceCondition\<close> with no \<open>maxWaitTime\<close> waits 24 hours. Whatever the feed
  returns, the call returns (the function is total) and throws nothing. Poll \<open>j\<close> is the
  check of the \<open>j\<close>-th feed result; it starts before \<open>maxWaitTime\<close> has elapsed, and
  30 seconds (plus what the poll itself took) after the poll before it started. A poll
  that failed, or that found the condition not met, is followed by another poll whenever
  the 30 seconds end before \<open>maxWaitTime\<close> has elapsed: a failed poll does not end the
  wait. The call returns either the result \<open>timeout: true\<close>, when no poll settled the
  wait and \<open>maxWaitTime\<close> has elapsed, or the result of its last poll, which is the first
  one that succeeded with the condition met.
\<close>

theorem waitForPriceCondition_polls:
  "waitForPriceCondition R feed lag0 tok target isAbove None
     = waitForPriceCondition R feed lag0 tok target isAbove (Some (24 * 60 * 60 * 1000))
   \<and> (let limit = (case maxWaitTime of None \<Rightarrow> 86400000 | Some m \<Rightarrow> m);
          r = fst (waitForPriceCondition R feed lag0 tok target isAbove maxWaitTime);
          tr = snd (waitForPriceCondition R feed lag0 tok target isAbove maxWaitTime)
      in (\<forall>j < length tr.
             snd (tr ! j) = checkPriceCondition R (fst (feed j)) tok target isAbove
           \<and> fst (tr ! j) = lag0 + (\<Sum>k<j. snd (feed k) + 30000)
           \<and> fst (tr ! j) < limit)
       \<and> (\<forall>j < length tr.
             \<not> settled (snd (tr ! j)) \<and> fst (tr ! j) + snd (feed j) + 30000 < limit
             \<longrightarrow> Suc j < length tr)
       \<and> ((r = timeout_result \<and> pc_timeout r = Some True
             \<and> (\<forall>p \<in> set tr. \<not> settled (snd p))
             \<and> limit \<le> lag0 + (\<Sum>k<length tr. snd (feed k) + 30000))
          \<or> (tr \<noteq> [] \<and> r = snd (last tr) \<and> pc_success r \<and> pc_conditionMet r
             \<and> pc_timeout r = None
             \<and> (\<forall>p \<in> set (butlast tr). \<not> settled (snd p)))))"
proof -
  define limit where "limit = (case maxWaitTime of None \<Rightarrow> 86400000 | Some m \<Rightarrow> (m::nat))"
  define W where "W = wait_loop R feed tok target isAbove limit 0 lag0"
  have W: "waitForPriceCondition R feed lag0 tok target isAbove maxWaitTime = W"
    by (cases maxWaitTime) (simp_all add: waitForPriceCondition_def W_def limit_def)
  have polls: "\<forall>j < length (snd W).
             snd (snd W ! j) = checkPriceCondition R (fst (feed j)) tok target isAbove
           \<and> fst (snd W ! j) = lag0 + (\<Sum>k<j. snd (feed k) + 30000)
           \<and> fst (snd W ! j) < limit"
  proof (intro allI impI)
    fix j assume "j < length (snd W)"
    then have "j < length (snd (wait_loop R feed tok target isAbove limit 0 lag0))"
      by (simp add: W_def)
    from trace_polls [OF this]
    show "snd (snd W ! j) = checkPriceCondition R (fst (feed j)) tok target isAbove
           \<and> fst (snd W ! j) = lag0 + (\<Sum>k<j. snd (feed k) + 30000)
           \<and> fst (snd W ! j) < limit"
      by (simp add: W_def checkInterval_def)
  qed
  have cont: "\<forall>j < length (snd W).
             \<not> settled (snd (snd W ! j)) \<and> fst (snd W ! j) + snd (feed j) + 30000 < limit
             \<longrightarrow> Suc j < length (snd W)"
  proof (intro allI impI)
    fix j assume j: "j < length (snd W)"
      and c: "\<not> settled (snd (snd W ! j)) \<and> fst (snd W ! j) + snd (feed j) + 30000 < limit"
    show "Suc j < length (snd W)"
      unfolding W_def
      by (rule trace_continues) (use j c in \<open>simp_all add: W_def checkInterval_def\<close>)
  qed
  have out: "(fst W = timeout_result \<and> pc_timeout (fst W) = Some True
             \<and> (\<forall>p \<in> set (snd W). \<not> settled (snd p))
             \<and> limit \<le> lag0 + (\<Sum>k<length (snd W). snd (feed k) + 30000))
          \<or> (snd W \<noteq> [] \<and> fst W = snd (last (snd W)) \<and> pc_success (fst W) \<and> pc_conditionMet (fst W)
             \<and> pc_timeout (fst W) = None
             \<and> (\<forall>p \<in> set (butlast (snd W)). \<not> settled (snd p)))"
  proof -
    from trace_outcome [of R feed tok target isAbove limit 0 lag0]
    show ?thesis
    proof
      assume a: "fst (wait_loop R feed tok target isAbove limit 0 lag0) = timeout_result \<and>
        (\<forall>p\<in>set (snd (wait_loop R feed tok target isAbove limit 0 lag0)). \<not> settled (snd p)) \<and>
        limit \<le> lag0 + (\<Sum>k<length (snd (wait_loop R feed tok target isAbove limit 0 lag0)).
            snd (feed (0 + k)) + checkInterval)"
      then have "fst W = timeout_result" "\<forall>p\<in>set (snd W). \<not> settled (snd p)"
        "limit \<le> lag0 + (\<Sum>k<length (snd W). snd (feed k) + 30000)"
        by (simp_all add: W_def checkInterval_def)
      moreover have "pc_timeout timeout_result = Some True" by (simp add: timeout_result_def)
      ultimately show ?thesis by simp
    next
      assume b: "snd (wait_loop R feed tok target isAbove limit 0 lag0) \<noteq> [] \<and>
        fst (wait_loop R feed tok target isAbove limit 0 lag0)
          = snd (last (snd (wait_loop R feed tok target isAbove limit 0 lag0))) \<and>
        settled (fst (wait_loop R feed tok target isAbove limit 0 lag0)) \<and>
        (\<forall>p\<in>set (butlast (snd (wait_loop R feed tok target isAbove limit 0 lag0))). \<not> settled (snd p))"
      then have ne: "snd W \<noteq> []" and l: "fst W = snd (last (snd W))" and s: "settled (fst W)"
        and bl: "\<forall>p\<in>set (butlast (snd W)). \<not> settled (snd p)"
        unfolding W_def by blast+
      from ne have "length (snd W) - 1 < length (snd W)" by simp
      with polls have "snd (snd W ! (length (snd W) - 1))
          = checkPriceCondition R (fst (feed (length (snd W) - 1))) tok target isAbove"
        by blast
      with ne l have "fst W = checkPriceCondition R (fst (feed (length (snd W) - 1))) tok target isAbove"
        by (simp add: last_conv_nth)
      then have "pc_timeout (fst W) = None" by (simp add: poll_not_timeout)
      with ne l s bl show ?thesis by (simp add: settled_def)
    qed
  qed
  have dflt: "waitForPriceCondition R feed lag0 tok target isAbove None
     = waitForPriceCondition R feed lag0 tok target isAbove (Some (24 * 60 * 60 * 1000))"
    by (simp add: waitForPriceCondition_def)
  show ?thesis
    unfolding W Let_def limit_def [symmetric]
    using dflt polls cont out by blast
qed

lemma example_wait:
  "wait_loop example_runtime example_feed ''SOL'' 100 True 100000 0 0 =
     (checkPriceCondition example_runtime (JNum 105) ''SOL'' 100 True,
      [(0, checkPriceCondition example_runtime
             (JObj [(''success'', JBool False), (''error'', JStr ''x'')]) ''SOL'' 100 True),
       (30250, checkPriceCondition example_runtime (JNum 95) ''SOL'' 100 True),
       (60250, checkPriceCondition example_runtime (JNum 105) ''SOL'' 100 True)])"
proof -
  have 2: "wait_loop example_runtime example_feed ''SOL'' 100 True 100000 (Suc (Suc 0)) 60250 =
     (checkPriceCondition example_runtime (JNum 105) ''SOL'' 100 True,
      [(60250, checkPriceCondition example_runtime (JNum 105) ''SOL'' 100 True)])"
    by (subst wait_loop_met) (simp_all add: example_feed_def checkPriceCondition_number)
  have 1: "wait_loop example_runtime example_feed ''SOL'' 100 True 100000 (Suc 0) 30250 =
     (checkPriceCondition example_runtime (JNum 105) ''SOL'' 100 True,
      [(30250, checkPriceCondition example_runtime (JNum 95) ''SOL'' 100 True),
       (60250, checkPriceCondition example_runtime (JNum 105) ''SOL'' 100 True)])"
    by (subst wait_loop_continues)
       (simp_all add: example_feed_def checkPriceCondition_number checkInterval_def 2)
  show ?thesis
    by (subst wait_loop_continues)
       (simp_all add: example_feed_def checkPriceCondition_error_object price_check_failed_def
          checkInterval_def 1)
qed

lemma failing_wait:
  "wait_loop example_runtime failing_feed ''SOL'' 100 True 60000 0 5 =
     (timeout_result,
      [(5, checkPriceCondition example_runtime
             (JObj [(''success'', JBool False), (''error'', JStr ''x'')]) ''SOL'' 100 True),
       (30005, checkPriceCondition example_runtime
             (JObj [(''success'', JBool False), (''error'', JStr ''x'')]) ''SOL'' 100 True)])"
proof -
  have 2: "wait_loop example_runtime failing_feed ''SOL'' 100 True 60000 (Suc (Suc 0)) 60005 = (timeout_result, [])"
    by (simp add: wait_loop_expired)
  have 1: "wait_loop example_runtime failing_feed ''SOL'' 100 True 60000 (Suc 0) 30005 =
     (timeout_result,
      [(30005, checkPriceCondition example_runtime
             (JObj [(''success'', JBool False), (''error'', JStr ''x'')]) ''SOL'' 100 True)])"
    by (subst wait_loop_continues)
       (simp_all add: failing_feed_def checkPriceCondition_error_object price_check_failed_def
          checkInterval_def 2)
  show ?thesis
    by (subst wait_loop_continues)
       (simp_all add: failing_feed_def checkPriceCondition_error_object price_check_failed_def
          checkInterval_def 1)
qed

theorem waitForPriceCondition_polls_witness:
  "map fst (snd (waitForPriceCondition example_runtime example_feed 0 ''SOL'' 100 True (Some 100000)))
     = [0, 30250, 60250]
   \<and> \<not> pc_success (snd (snd (waitForPriceCondition example_runtime example_feed 0 ''SOL'' 100 True
                              (Some 100000)) ! 0))
   \<and> \<not> settled (snd (snd (waitForPriceCondition example_runtime example_feed 0 ''SOL'' 100 True
                              (Some 100000)) ! 1))
   \<and> fst (waitForPriceCondition example_runtime example_feed 0 ''SOL'' 100 True (Some 100000))
       = \<lparr>pc_success = True, pc_error = None, pc_currentPrice = Some (JNum 105),
          pc_targetPrice = Some 100, pc_conditionMet = True, pc_condition = Some ''above'',
          pc_timeout = None\<rparr>
   \<and> map fst (snd (waitForPriceCondition example_runtime failing_feed 5 ''SOL'' 100 True (Some 60000)))
       = [5, 30005]
   \<and> fst (waitForPriceCondition example_runtime failing_feed 5 ''SOL'' 100 True (Some 60000))
       = \<lparr>pc_success = True, pc_error = Some ''Price monitoring timeout reached'',
          pc_currentPrice = None, pc_targetPrice = None, pc_conditionMet = False,
          pc_condition = None, pc_timeout = Some True\<rparr>"
  using waitForPriceCondition_polls [of example_runtime example_feed 0 "''SOL''" 100 True "Some 100000"]
    waitForPriceCondition_polls [of example_runtime failing_feed 5 "''SOL''" 100 True "Some 60000"]
  by (simp add: waitForPriceCondition_def example_wait failing_wait checkPriceCondition_number
      checkPriceCondition_error_object price_check_failed_def settled_def timeout_result_def
      del: sum.lessThan_Suc)

section \<open>Daily times\<close>

lemma parse_0930: "parseTime ''09:30'' = Some \<lparr>hour = 9, minute = 30\<rparr>"
  by (simp add: parseTime_def Number_digits_def is_digit_def)

lemma parse_1530: "parseTime ''15:30'' = Some \<lparr>hour = 15, minute = 30\<rparr>"
  by (simp add: parseTime_def Number_digits_def is_digit_def)

lemma parsed_example:
  "parsedTimes [''15:30'', ''09:30''] = Some [\<lparr>hour = 9, minute = 30\<rparr>, \<lparr>hour = 15, minute = 30\<rparr>]"
  by (simp add: parsedTimes_def parse_0930 parse_1530 minute_of_day_def)
























section \<open>Recording an execution\<close>



lemma wrappedFunction_never_throws:
  "\<exists>s. wrappedFunction R scheduleId out t0 t1 ts activeSchedules = Inr s"
  by (cases out) (simp_all add: wrappedFunction_def wrappedFunction_try_def wrappedFunction_catch_def)

text \<open>
  A callback that resolves with \<open>{success: false}\<close> is recorded with \<open>success = true\<close>:
  \<open>result?.success || true\<close> is \<open>true\<close> whenever \<open>result.success\<close> is falsy.
\<close>

lemma wrappedFunction_masks_failed_result:
  "activeSchedules scheduleId = Some sch \<Longrightarrow>
   map_option lx_success
     (lastExecution_after
        (wrappedFunction R scheduleId (Resolves (JObj [(''success'', JBool False)])) t0 t1 ts activeSchedules)
        scheduleId)
   = Some (JBool True)"
  by (simp add: wrappedFunction_def wrappedFunction_try_def record_execution_def
      lastExecution_after_def optchain_def js_or_def)




section \<open>The token directory cache\<close>

text \<open>
  C7. The directory is served from the cache, with no request, while the cache is at most
  5 minutes (300000 ms) old. When a request fails (it throws, or the response is not ok)
  and a cache exists, the cache is returned, stale or not, and stays as it is. The call
  throws only when no cache exists and the request throws. A request that succeeds
  replaces the cache and its time.
\<close>

theorem getJupiterTokens_cache:
  "CACHE_DURATION = 300000
   \<and> (jupiterTokensCache c = Some d \<and> now - jupiterTokensCacheTime c \<le> CACHE_DURATION \<longrightarrow>
        getJupiterTokens now response c = (Inr (Some d), c, False))
   \<and> (jupiterTokensCache c = Some d \<and> (response = ResponseNotOk \<or> (\<exists>e. response = FetchThrows e)) \<longrightarrow>
        fst (getJupiterTokens now response c) = Inr (Some d)
        \<and> fst (snd (getJupiterTokens now response c)) = c)
   \<and> ((\<exists>e. fst (getJupiterTokens now response c) = Inl e) \<longrightarrow>
        jupiterTokensCache c = None \<and> (\<exists>e. response = FetchThrows e))
   \<and> (jupiterTokensCache c = None \<or> now - jupiterTokensCacheTime c > CACHE_DURATION \<longrightarrow>
        getJupiterTokens now (ResponseJson body) c
          = (Inr body, \<lparr>jupiterTokensCache = body, jupiterTokensCacheTime = now\<rparr>, True))"
  by (cases response) (auto simp add: getJupiterTokens_def CACHE_DURATION_def)

theorem getJupiterTokens_cache_witness:
  "getJupiterTokens 200000 (FetchThrows (Error ''network''))
       \<lparr>jupiterTokensCache = Some ''tokens'', jupiterTokensCacheTime = 0\<rparr>
     = (Inr (Some ''tokens''), \<lparr>jupiterTokensCache = Some ''tokens'', jupiterTokensCacheTime = 0\<rparr>, False)
   \<and> getJupiterTokens 300001 (FetchThrows (Error ''network''))
       \<lparr>jupiterTokensCache = Some ''tokens'', jupiterTokensCacheTime = 0\<rparr>
     = (Inr (Some ''tokens''), \<lparr>jupiterTokensCache = Some ''tokens'', jupiterTokensCacheTime = 0\<rparr>, True)
   \<and> getJupiterTokens 300001 (FetchThrows (Error ''network''))
       \<lparr>jupiterTokensCache = (None :: string option), jupiterTokensCacheTime = 0\<rparr>
     = (Inl (Error ''Unable to fetch token list from Jupiter API''),
        \<lparr>jupiterTokensCache = None, jupiterTokensCacheTime = 0\<rparr>, True)
   \<and> getJupiterTokens 300001 (ResponseJson (Some ''fresh''))
       \<lparr>jupiterTokensCache = Some ''tokens'', jupiterTokensCacheTime = 0\<rparr>
     = (Inr (Some ''fresh''), \<lparr>jupiterTokensCache = Some ''fresh'', jupiterTokensCacheTime = 300001\<rparr>, True)"
proof -
  have fresh: "getJupiterTokens 200000 (FetchThrows (Error ''network''))
       \<lparr>jupiterTokensCache = Some ''tokens'', jupiterTokensCacheTime = 0\<rparr>
     = (Inr (Some ''tokens''), \<lparr>jupiterTokensCache = Some ''tokens'', jupiterTokensCacheTime = 0\<rparr>, False)"
    using getJupiterTokens_cache [of "\<lparr>jupiterTokensCache = Some ''tokens'', jupiterTokensCacheTime = 0\<rparr>"
        "''tokens''" 200000 "FetchThrows (Error ''network'')", THEN conjunct2, THEN conjunct1]
    by (simp add: CACHE_DURATION_def)
  have stale: "getJupiterTokens 300001 (FetchThrows (Error ''network''))
       \<lparr>jupiterTokensCache = Some ''tokens'', jupiterTokensCacheTime = 0\<rparr>
     = (Inr (Some ''tokens''), \<lparr>jupiterTokensCache = Some ''tokens'', jupiterTokensCacheTime = 0\<rparr>, True)"
    by (simp add: getJupiterTokens_def CACHE_DURATION_def)
  have none: "getJupiterTokens 300001 (FetchThrows (Error ''network''))
       \<lparr>jupiterTokensCache = (None :: string option), jupiterTokensCacheTime = 0\<rparr>
     = (Inl (Error ''Unable to fetch token list from Jupiter API''),
        \<lparr>jupiterTokensCache = None, jupiterTokensCacheTime = 0\<rparr>, True)"
    by (simp add: getJupiterTokens_def)
  have renew: "getJupiterTokens 300001 (ResponseJson (Some ''fresh''))
       \<lparr>jupiterTokensCache = Some ''tokens'', jupiterTokensCacheTime = 0\<rparr>
     = (Inr (Some ''fresh''), \<lparr>jupiterTokensCache = Some ''fresh'', jupiterTokensCacheTime = 300001\<rparr>, True)"
    by (simp add: getJupiterTokens_def CACHE_DURATION_def)
  from fresh stale none renew show ?thesis by (simp only: simp_thms)
qed

section \<open>Broadcast and confirmation\<close>

lemma retry_loop_events:
  "ev \<in> set (snd (retry_loop body request api maxRetries attempt)) \<Longrightarrow>
   (\<exists>n. ev = request n) \<or> (\<exists>ms. ev = Sleep ms)"
proof (induction body request api maxRetries attempt rule: retry_loop.induct)
  case (1 body request api maxRetries attempt)
  note ev = "1.prems" [unfolded retry_loop.simps [of body request api maxRetries attempt]]
  show ?case
  proof (cases "attempt \<le> maxRetries")
    case False
    with ev show ?thesis by simp
  next
    case True
    show ?thesis
    proof (cases "body (api attempt)")
      case (Inr data)
      with True ev show ?thesis by auto
    next
      case (Inl e)
      show ?thesis
      proof (cases "attempt = maxRetries")
        case last: True
        from ev True Inl last show ?thesis by auto
      next
        case False
        from ev True Inl False
        have "ev = request attempt \<or> ev = Sleep (1000 * attempt)
              \<or> ev \<in> set (snd (retry_loop body request api maxRetries (Suc attempt)))"
          by (auto simp add: Let_def)
        with "1.IH" [OF True Inl False] show ?thesis by blast
      qed
    qed
  qed
qed

lemma quote_loop_no_broadcast:
  "Broadcast h \<notin> set (snd (retry_loop quote_attempt QuoteRequest api m k))"
  using retry_loop_events [of "Broadcast h" quote_attempt QuoteRequest api m k] by auto

lemma swap_loop_no_broadcast:
  "Broadcast h \<notin> set (snd (retry_loop swap_attempt SwapRequest api m k))"
  using retry_loop_events [of "Broadcast h" swap_attempt SwapRequest api m k] by auto

lemma swap_confirm_result:
  "fst (swap_confirm confirmTransaction conf hash raw)
     = Inr \<lparr>sr_success = True, sr_signature = Some hash, sr_fromAmount = Some raw,
            sr_error = None, sr_errorCategory = None\<rparr>
   \<and> Broadcast h \<notin> set (snd (swap_confirm confirmTransaction conf hash raw))"
  by (cases conf) (simp_all add: swap_confirm_def Let_def)

lemma swap_try_broadcast:
  assumes "Broadcast h \<in> set (snd (swap_try env fromSym toSym amount options))"
  shows "\<exists>raw. fst (swap_try env fromSym toSym amount options)
           = Inr \<lparr>sr_success = True, sr_signature = Some h, sr_fromAmount = Some raw,
                  sr_error = None, sr_errorCategory = None\<rparr>"
  using assms
  by (auto simp add: swap_try_def Let_def swap_confirm_result quote_loop_no_broadcast
        swap_loop_no_broadcast
      split: sum.splits option.splits)


lemma swap_broadcast:
  assumes "Broadcast h \<in> set (snd (swap env fromSym toSym amount options))"
  shows "sr_success (fst (swap env fromSym toSym amount options))
       \<and> sr_signature (fst (swap env fromSym toSym amount options)) = Some h"
proof -
  have ev: "snd (swap env fromSym toSym amount options) = snd (swap_try env fromSym toSym amount options)"
    by (simp add: swap_def Let_def split: sum.splits)
  with assms have "Broadcast h \<in> set (snd (swap_try env fromSym toSym amount options))" by simp
  from swap_try_broadcast [OF this] obtain raw where
    "fst (swap_try env fromSym toSym amount options)
       = Inr \<lparr>sr_success = True, sr_signature = Some h, sr_fromAmount = Some raw,
              sr_error = None, sr_errorCategory = None\<rparr>" ..
  then show ?thesis by (simp add: swap_def Let_def)
qed

lemma swap_confirm_irrelevant:
  "fst (swap (env\<lparr>se_confirm := conf\<rparr>) fromSym toSym amount options)
     = fst (swap env fromSym toSym amount options)"
proof -
  have "fst (swap_try (env\<lparr>se_confirm := conf\<rparr>) fromSym toSym amount options)
      = fst (swap_try env fromSym toSym amount options)"
    by (simp add: swap_try_def Let_def swap_confirm_result split: sum.splits option.splits prod.splits)
  then show ?thesis by (simp add: swap_def Let_def split: sum.splits)
qed

lemma transfer_broadcast:
  assumes "Broadcast h \<in> set (snd (transfer R env tokenSymbol amount))"
  shows "fst (transfer R env tokenSymbol amount) = transfer_confirm R (te_confirm env) h"
  using assms
  by (auto simp add: transfer_def transfer_try_def Let_def split: sum.splits option.splits)

text \<open>
  C2, as amended. In \<open>swap\<close>, once the transaction has been signed and sent with hash
  \<open>h\<close>, the result is a success with signature \<open>h\<close>, whatever the confirmation does and
  whether or not it was asked for: the result of \<open>swap\<close> does not depend on the
  confirmation at all. In \<open>transfer\<close>, once the transaction has been sent, a confirmation
  that throws (a timeout) or reports no error leaves the result a success with signature
  \<open>h\<close>, but a confirmation that reports an error turns the result into a failure with
  the message \<open>Transaction failed: <error>\<close> and no signature.
\<close>

theorem broadcast_then_confirmation:
  "(Broadcast h \<in> set (snd (swap senv fromSym toSym amount options)) \<longrightarrow>
      sr_success (fst (swap senv fromSym toSym amount options))
      \<and> sr_signature (fst (swap senv fromSym toSym amount options)) = Some h)
   \<and> fst (swap (senv\<lparr>se_confirm := conf\<rparr>) fromSym toSym amount options)
       = fst (swap senv fromSym toSym amount options)
   \<and> (Broadcast h \<in> set (snd (transfer R tenv tokenSymbol amount))
       \<and> (te_confirm tenv = ConfirmOk \<or> te_confirm tenv = ConfirmThrows e) \<longrightarrow>
        fst (transfer R tenv tokenSymbol amount)
          = \<lparr>tr_success = True, tr_signature = Some h, tr_error = None\<rparr>)
   \<and> (Broadcast h \<in> set (snd (transfer R tenv tokenSymbol amount))
       \<and> te_confirm tenv = ConfirmErr err \<longrightarrow>
        fst (transfer R tenv tokenSymbol amount)
          = \<lparr>tr_success = False, tr_signature = None,
             tr_error = Some (''Transaction failed: '' @ ToString R err)\<rparr>)"
proof (intro conjI impI)
  assume "Broadcast h \<in> set (snd (swap senv fromSym toSym amount options))"
  from swap_broadcast [OF this]
  show "sr_success (fst (swap senv fromSym toSym amount options))"
    and "sr_signature (fst (swap senv fromSym toSym amount options)) = Some h"
    by simp_all
next
  show "fst (swap (senv\<lparr>se_confirm := conf\<rparr>) fromSym toSym amount options)
       = fst (swap senv fromSym toSym amount options)"
    by (rule swap_confirm_irrelevant)
next
  assume a: "Broadcast h \<in> set (snd (transfer R tenv tokenSymbol amount))
       \<and> (te_confirm tenv = ConfirmOk \<or> te_confirm tenv = ConfirmThrows e)"
  then have "fst (transfer R tenv tokenSymbol amount) = transfer_confirm R (te_confirm tenv) h"
    by (intro transfer_broadcast) simp
  with a show "fst (transfer R tenv tokenSymbol amount)
          = \<lparr>tr_success = True, tr_signature = Some h, tr_error = None\<rparr>"
    by (auto simp add: transfer_confirm_def)
next
  assume a: "Broadcast h \<in> set (snd (transfer R tenv tokenSymbol amount))
       \<and> te_confirm tenv = ConfirmErr err"
  then have "fst (transfer R tenv tokenSymbol amount) = transfer_confirm R (te_confirm tenv) h"
    by (intro transfer_broadcast) simp
  with a show "fst (transfer R tenv tokenSymbol amount)
          = \<lparr>tr_success = False, tr_signature = None,
             tr_error = Some (''Transaction failed: '' @ ToString R err)\<rparr>"
    by (simp add: transfer_confirm_def)
qed


lemma upper_examples:
  "toUpperCase ''SOL'' = ''SOL''" "toUpperCase ''USDC'' = ''USDC''"
  "toUpperCase ''BONK'' = ''BONK''"
  by code_simp+

lemma find_token_examples:
  "find_token example_tokens ''SOL'' = Some \<lparr>tk_symbol = ''SOL'', tk_address = ''So11'', tk_decimals = 9\<rparr>"
  "find_token example_tokens ''USDC'' = Some \<lparr>tk_symbol = ''USDC'', tk_address = ''EPjF'', tk_decimals = 6\<rparr>"
  by (simp_all add: find_token_def example_tokens_def upper_examples)

lemma example_swap:
  "swap (example_swap_env conf) ''SOL'' ''USDC'' 1 default_options
     = (\<lparr>sr_success = True, sr_signature = Some ''5h'', sr_fromAmount = Some 1000000000,
         sr_error = None, sr_errorCategory = None\<rparr>,
        [QuoteRequest 1, SwapRequest 1, Broadcast ''5h'', ConfirmRequest ''5h''])"
proof -
  have q: "retry_loop quote_attempt QuoteRequest (\<lambda>n. Json (JObj [(''outAmount'', JStr ''1000'')])) 3 1
      = (Inr (JObj [(''outAmount'', JStr ''1000'')]), [QuoteRequest 1])"
    by (subst retry_loop.simps) (simp add: quote_attempt_def del: One_nat_def)
  have t: "retry_loop swap_attempt SwapRequest (\<lambda>n. Json (JObj [(''swapTransaction'', JStr ''AQID'')])) 3 1
      = (Inr (JObj [(''swapTransaction'', JStr ''AQID'')]), [SwapRequest 1])"
    by (subst retry_loop.simps) (simp add: swap_attempt_def del: One_nat_def)
  have c: "swap_confirm True conf ''5h'' 1000000000
      = (Inr \<lparr>sr_success = True, sr_signature = Some ''5h'', sr_fromAmount = Some 1000000000,
              sr_error = None, sr_errorCategory = None\<rparr>, [ConfirmRequest ''5h''])"
    by (cases conf) (simp_all add: swap_confirm_def)
  show ?thesis
    by (simp add: swap_def swap_try_def example_swap_env_def default_options_def find_token_examples
        q t c Let_def del: One_nat_def)
qed

lemma example_transfer:
  "transfer R (example_transfer_env conf) ''SOL'' 1
     = (transfer_confirm R conf ''5h'',
        [Instructions [SystemTransfer 1000000000], Broadcast ''5h'', ConfirmRequest ''5h''])"
  by (simp add: transfer_def transfer_try_def transfer_instructions_def example_transfer_env_def
      upper_examples)

theorem broadcast_then_confirmation_witness:
  "Broadcast ''5h'' \<in> set (snd (swap (example_swap_env (ConfirmErr (JStr ''InstructionError'')))
                                 ''SOL'' ''USDC'' 1 default_options))
   \<and> fst (swap (example_swap_env (ConfirmErr (JStr ''InstructionError''))) ''SOL'' ''USDC'' 1 default_options)
       = \<lparr>sr_success = True, sr_signature = Some ''5h'', sr_fromAmount = Some 1000000000,
          sr_error = None, sr_errorCategory = None\<rparr>
   \<and> Broadcast ''5h'' \<in> set (snd (transfer example_runtime
                                   (example_transfer_env (ConfirmThrows (Error ''timeout''))) ''SOL'' 1))
   \<and> fst (transfer example_runtime (example_transfer_env (ConfirmThrows (Error ''timeout''))) ''SOL'' 1)
       = \<lparr>tr_success = True, tr_signature = Some ''5h'', tr_error = None\<rparr>
   \<and> Broadcast ''5h'' \<in> set (snd (transfer example_runtime
                                   (example_transfer_env (ConfirmErr (JStr ''InstructionError''))) ''SOL'' 1))
   \<and> fst (transfer example_runtime (example_transfer_env (ConfirmErr (JStr ''InstructionError''))) ''SOL'' 1)
       = \<lparr>tr_success = False, tr_signature = None,
          tr_error = Some ''Transaction failed: InstructionError''\<rparr>"
proof -
  have s: "Broadcast ''5h'' \<in> set (snd (swap (example_swap_env (ConfirmErr (JStr ''InstructionError'')))
                                 ''SOL'' ''USDC'' 1 default_options))"
    by (simp add: example_swap)
  have t1: "Broadcast ''5h'' \<in> set (snd (transfer example_runtime
                                   (example_transfer_env (ConfirmThrows (Error ''timeout''))) ''SOL'' 1))"
    by (simp add: example_transfer)
  have t2: "Broadcast ''5h'' \<in> set (snd (transfer example_runtime
                                   (example_transfer_env (ConfirmErr (JStr ''InstructionError''))) ''SOL'' 1))"
    by (simp add: example_transfer)
  have c1: "te_confirm (example_transfer_env (ConfirmThrows (Error ''timeout''))) = ConfirmThrows (Error ''timeout'')"
    "te_confirm (example_transfer_env (ConfirmErr (JStr ''InstructionError''))) = ConfirmErr (JStr ''InstructionError'')"
    by (simp_all add: example_transfer_env_def)
  note thm1 = broadcast_then_confirmation [where h = "''5h''"
      and senv = "example_swap_env (ConfirmErr (JStr ''InstructionError''))"
      and fromSym = "''SOL''" and toSym = "''USDC''" and amount = 1 and options = default_options
      and R = example_runtime and tenv = "example_transfer_env (ConfirmThrows (Error ''timeout''))"
      and tokenSymbol = "''SOL''" and e = "Error ''timeout''"]
  note thm2 = broadcast_then_confirmation [where h = "''5h''"
      and senv = "example_swap_env (ConfirmErr (JStr ''InstructionError''))"
      and fromSym = "''SOL''" and toSym = "''USDC''" and amount = 1 and options = default_options
      and R = example_runtime and tenv = "example_transfer_env (ConfirmErr (JStr ''InstructionError''))"
      and tokenSymbol = "''SOL''" and err = "JStr ''InstructionError''"]
  from thm1 s have a: "sr_success (fst (swap (example_swap_env (ConfirmErr (JStr ''InstructionError'')))
        ''SOL'' ''USDC'' 1 default_options))" by blast
  from thm1 t1 c1 have b: "fst (transfer example_runtime
        (example_transfer_env (ConfirmThrows (Error ''timeout''))) ''SOL'' 1)
       = \<lparr>tr_success = True, tr_signature = Some ''5h'', tr_error = None\<rparr>" by blast
  from thm2 t2 c1 have c: "fst (transfer example_runtime
        (example_transfer_env (ConfirmErr (JStr ''InstructionError''))) ''SOL'' 1)
       = \<lparr>tr_success = False, tr_signature = None,
          tr_error = Some (''Transaction failed: '' @ ToString example_runtime (JStr ''InstructionError''))\<rparr>"
    by blast
  from a b c s t1 t2 show ?thesis by (simp add: example_swap)
qed

theorem transfer_confirmation_error_counterexample:
  "Broadcast ''5h'' \<in> set (snd (transfer example_runtime
                                 (example_transfer_env (ConfirmErr (JStr ''InstructionError''))) ''SOL'' 1))
   \<and> \<not> tr_success (fst (transfer example_runtime
                            (example_transfer_env (ConfirmErr (JStr ''InstructionError''))) ''SOL'' 1))
   \<and> tr_signature (fst (transfer example_runtime
                           (example_transfer_env (ConfirmErr (JStr ''InstructionError''))) ''SOL'' 1))
       = None"
  by (simp add: example_transfer transfer_confirm_def)

section \<open>The balance check of the DCA driver\<close>

lemma waitForBalance_opens_from:
  assumes short: "\<forall>j. i \<le> j \<and> j < n \<longrightarrow>
             (case gate j of Inl e \<Rightarrow> True | Inr balances \<Rightarrow> sol_balance balances < minimumSOL)"
    and opens: "gate n = Inr found" "minimumSOL \<le> sol_balance found"
    and le: "i \<le> n"
  shows "waitForBalance gate minimumSOL i = Some (sol_balance found, n)"
  using short le
proof (induction "n - i" arbitrary: i)
  case 0
  then have "i = n" by simp
  with opens show ?case by (subst waitForBalance.simps) simp
next
  case (Suc k)
  then have lt: "i < n" and k: "k = n - Suc i" by simp_all
  from Suc.prems(1) lt
  have here: "case gate i of Inl e \<Rightarrow> True | Inr balances \<Rightarrow> sol_balance balances < minimumSOL"
    by simp
  have "waitForBalance gate minimumSOL (Suc i) = Some (sol_balance found, n)"
    using Suc.prems lt by (intro Suc.hyps(1) [OF k]) auto
  with here show ?case
    by (subst waitForBalance.simps) (auto split: sum.splits)
qed

lemma quote_requests_sleeps: "quote_requests (replicate n (Sleep ms)) = []"
  by (induction n) (simp_all add: quote_requests_def)

text \<open>
  C3, as amended. Take an immediate execution in which the wallet is obtained, the balance
  gate opens at some poll (the wallet holds at least 0.001 SOL), and the balances are
  fetched. If the wallet lists \<open>fromToken\<close> with a balance below the requested amount,
  the execution returns \<open>success = false\<close> with the error message
  \<open>Insufficient <fromToken> balance. Available: <balance>, required: <amount>\<close>; if the
  wallet does not list \<open>fromToken\<close> at all, it returns \<open>success = false\<close> with the
  message \<open>Wallet does not have <fromToken>\<close>. Neither result has an error category,
  and in both cases no request has been made to the quote service: all the execution did
  was sleep a minute after each poll of the gate that came before the opening one.
\<close>

theorem insufficient_balance_fails_fast:
  assumes wallet: "de_wallet env = Inr w"
    and short: "\<forall>j < n. (case de_gate env j of Inl e \<Rightarrow> True
                                | Inr balances \<Rightarrow> sol_balance balances < 1 / 1000)"
    and opens: "de_gate env n = Inr found" "1 / 1000 \<le> sol_balance found"
    and balances: "de_balances env = Inr balances"
  shows "(List.find (\<lambda>t. h_symbol t \<noteq> [] \<and> toUpperCase (h_symbol t) = toUpperCase fromToken) balances
            = Some tokenObj
          \<and> h_uiAmount tokenObj < amount \<longrightarrow>
          baselineFunction R env fromToken toToken amount
            = Some (Inr \<lparr>dr_success = False, dr_signature = None,
                          dr_error = Some (''Insufficient '' @ fromToken @ '' balance. Available: ''
                                           @ rt_show R (h_uiAmount tokenObj) @ '', required: ''
                                           @ rt_show R amount),
                          dr_errorCategory = None, dr_executionType = Some ''immediate''\<rparr>,
                    replicate n (Sleep 60000)))
     \<and> (List.find (\<lambda>t. h_symbol t \<noteq> [] \<and> toUpperCase (h_symbol t) = toUpperCase fromToken) balances
            = None \<longrightarrow>
          baselineFunction R env fromToken toToken amount
            = Some (Inr \<lparr>dr_success = False, dr_signature = None,
                          dr_error = Some (''Wallet does not have '' @ fromToken),
                          dr_errorCategory = None, dr_executionType = Some ''immediate''\<rparr>,
                    replicate n (Sleep 60000)))
     \<and> quote_requests (replicate n (Sleep 60000)) = []"
proof (intro conjI impI)
  have gate: "waitForBalance (de_gate env) (1 / 1000) 0 = Some (sol_balance found, n)"
    using short opens by (intro waitForBalance_opens_from) auto
  {
    assume listed: "List.find (\<lambda>t. h_symbol t \<noteq> [] \<and> toUpperCase (h_symbol t) = toUpperCase fromToken)
                      balances = Some tokenObj \<and> h_uiAmount tokenObj < amount"
    then have "trade_after_gate R env fromToken toToken amount n
         = (Inr (dca_failed (''Insufficient '' @ fromToken @ '' balance. Available: ''
                             @ rt_show R (h_uiAmount tokenObj) @ '', required: ''
                             @ rt_show R amount)), replicate n (Sleep 60000))"
      using balances by (simp add: trade_after_gate_def)
    then show "baselineFunction R env fromToken toToken amount
            = Some (Inr \<lparr>dr_success = False, dr_signature = None,
                          dr_error = Some (''Insufficient '' @ fromToken @ '' balance. Available: ''
                                           @ rt_show R (h_uiAmount tokenObj) @ '', required: ''
                                           @ rt_show R amount),
                          dr_errorCategory = None, dr_executionType = Some ''immediate''\<rparr>,
                    replicate n (Sleep 60000))"
      using wallet by (simp add: baselineFunction_def gate dca_failed_def)
  }
  {
    assume "List.find (\<lambda>t. h_symbol t \<noteq> [] \<and> toUpperCase (h_symbol t) = toUpperCase fromToken)
              balances = None"
    then have "trade_after_gate R env fromToken toToken amount n
         = (Inr (dca_failed (''Wallet does not have '' @ fromToken)), replicate n (Sleep 60000))"
      using balances by (simp add: trade_after_gate_def)
    then show "baselineFunction R env fromToken toToken amount
            = Some (Inr \<lparr>dr_success = False, dr_signature = None,
                          dr_error = Some (''Wallet does not have '' @ fromToken),
                          dr_errorCategory = None, dr_executionType = Some ''immediate''\<rparr>,
                    replicate n (Sleep 60000))"
      using wallet by (simp add: baselineFunction_def gate dca_failed_def)
  }
  show "quote_requests (replicate n (Sleep 60000)) = []"
    by (rule quote_requests_sleeps)
qed

lemma waitForBalance_never_opens:
  assumes never: "\<forall>j. (case gate j of Inl e \<Rightarrow> True | Inr balances \<Rightarrow> sol_balance balances < minimumSOL)"
  shows "waitForBalance gate minimumSOL i = None"
proof (rule ccontr)
  assume "waitForBalance gate minimumSOL i \<noteq> None"
  then obtain y where some: "waitForBalance gate minimumSOL i = Some y" by auto
  have "\<not> (\<forall>j. (case gate j of Inl e \<Rightarrow> True | Inr balances \<Rightarrow> sol_balance balances < minimumSOL))"
  proof (rule waitForBalance.raw_induct
      [where P = "\<lambda>g m i y. \<not> (\<forall>j. (case g j of Inl e \<Rightarrow> True | Inr balances \<Rightarrow> sol_balance balances < m))",
        OF _ some])
    fix f :: "(nat \<Rightarrow> js_error + holding list) \<Rightarrow> real \<Rightarrow> nat \<Rightarrow> (real \<times> nat) option"
      and g m k z
    assume IH: "\<And>g m k z. f g m k = Some z \<Longrightarrow>
        \<not> (\<forall>j. (case g j of Inl e \<Rightarrow> True | Inr balances \<Rightarrow> sol_balance balances < m))"
      and body: "(case g k of Inl e \<Rightarrow> f g m (Suc k)
                  | Inr balances \<Rightarrow> if m \<le> sol_balance balances then Some (sol_balance balances, k)
                                   else f g m (Suc k)) = Some z"
    show "\<not> (\<forall>j. (case g j of Inl e \<Rightarrow> True | Inr balances \<Rightarrow> sol_balance balances < m))"
    proof
      assume all: "\<forall>j. (case g j of Inl e \<Rightarrow> True | Inr balances \<Rightarrow> sol_balance balances < m)"
      then have "case g k of Inl e \<Rightarrow> True | Inr balances \<Rightarrow> sol_balance balances < m" ..
      with body have "f g m (Suc k) = Some z"
        by (auto split: sum.splits if_splits)
      from IH [OF this] all show False by simp
    qed
  qed
  with never show False by simp
qed

theorem insufficient_balance_fails_fast_witness:
  "baselineFunction example_runtime example_dca_env ''USDC'' ''SOL'' 1
     = Some (Inr \<lparr>dr_success = False, dr_signature = None,
                   dr_error = Some ''Insufficient USDC balance. Available: ?, required: ?'',
                   dr_errorCategory = None, dr_executionType = Some ''immediate''\<rparr>, [])
   \<and> baselineFunction example_runtime example_dca_env ''BONK'' ''SOL'' 1
     = Some (Inr \<lparr>dr_success = False, dr_signature = None,
                   dr_error = Some ''Wallet does not have BONK'',
                   dr_errorCategory = None, dr_executionType = Some ''immediate''\<rparr>, [])
   \<and> quote_requests [] = []"
proof -
  have wallet: "de_wallet example_dca_env = Inr \<lparr>w_walletId = ''w1'', w_walletAddress = ''addr''\<rparr>"
    by (simp add: example_dca_env_def)
  have short: "\<forall>j < (0::nat). (case de_gate example_dca_env j of Inl e \<Rightarrow> True
                                | Inr balances \<Rightarrow> sol_balance balances < 1 / 1000)"
    by simp
  have opens: "de_gate example_dca_env 0 = Inr example_holdings" "1 / 1000 \<le> sol_balance example_holdings"
    by (simp_all add: example_dca_env_def example_holdings_def sol_balance_def)
  have balances: "de_balances example_dca_env = Inr example_holdings"
    by (simp add: example_dca_env_def)
  have listed: "List.find (\<lambda>t. h_symbol t \<noteq> [] \<and> toUpperCase (h_symbol t) = toUpperCase ''USDC'')
                   example_holdings = Some \<lparr>h_symbol = ''USDC'', h_uiAmount = 0\<rparr>
                \<and> h_uiAmount \<lparr>h_symbol = ''USDC'', h_uiAmount = 0\<rparr> < 1"
    by (simp add: example_holdings_def upper_examples)
  have unlisted: "List.find (\<lambda>t. h_symbol t \<noteq> [] \<and> toUpperCase (h_symbol t) = toUpperCase ''BONK'')
                   example_holdings = None"
    by (simp add: example_holdings_def upper_examples)
  note inst = insufficient_balance_fails_fast [OF wallet short opens balances]
  from inst [of "''USDC''" "\<lparr>h_symbol = ''USDC'', h_uiAmount = 0\<rparr>" 1 example_runtime "''SOL''"] listed
  have a: "baselineFunction example_runtime example_dca_env ''USDC'' ''SOL'' 1
     = Some (Inr \<lparr>dr_success = False, dr_signature = None,
                   dr_error = Some (''Insufficient '' @ ''USDC'' @ '' balance. Available: ''
                                    @ rt_show example_runtime (h_uiAmount \<lparr>h_symbol = ''USDC'', h_uiAmount = 0\<rparr>)
                                    @ '', required: '' @ rt_show example_runtime 1),
                   dr_errorCategory = None, dr_executionType = Some ''immediate''\<rparr>,
             replicate 0 (Sleep 60000))"
    by blast
  from inst [of "''BONK''" "\<lparr>h_symbol = ''USDC'', h_uiAmount = 0\<rparr>" 1 example_runtime "''SOL''"] unlisted
  have b: "baselineFunction example_runtime example_dca_env ''BONK'' ''SOL'' 1
     = Some (Inr \<lparr>dr_success = False, dr_signature = None,
                   dr_error = Some (''Wallet does not have '' @ ''BONK''),
                   dr_errorCategory = None, dr_executionType = Some ''immediate''\<rparr>,
             replicate 0 (Sleep 60000))"
    by blast
  from a b show ?thesis by (simp add: example_runtime_def quote_requests_def)
qed

theorem insufficient_balance_counterexample:
  "baselineFunction example_runtime example_dca_env ''USDC'' ''SOL'' 1
     = Some (Inr \<lparr>dr_success = False, dr_signature = None,
                   dr_error = Some ''Insufficient USDC balance. Available: ?, required: ?'',
                   dr_errorCategory = None, dr_executionType = Some ''immediate''\<rparr>, [])
   \<and> baselineFunction example_runtime
        (example_dca_env\<lparr>de_gate := (\<lambda>i. Inr [\<lparr>h_symbol = ''SOL'', h_uiAmount = 0\<rparr>])\<rparr>)
        ''SOL'' ''USDC'' 1
     = None"
proof -
  have gate0: "waitForBalance (de_gate example_dca_env) (1 / 1000) 0 = Some (1, 0)"
    by (subst waitForBalance.simps)
       (simp add: example_dca_env_def example_holdings_def sol_balance_def)
  have first: "baselineFunction example_runtime example_dca_env ''USDC'' ''SOL'' 1
     = Some (Inr \<lparr>dr_success = False, dr_signature = None,
                   dr_error = Some ''Insufficient USDC balance. Available: ?, required: ?'',
                   dr_errorCategory = None, dr_executionType = Some ''immediate''\<rparr>, [])"
    unfolding baselineFunction_def gate0
    by (simp add: example_dca_env_def trade_after_gate_def example_holdings_def upper_examples
        dca_failed_def example_runtime_def)
  have "waitForBalance (\<lambda>i. Inr [\<lparr>h_symbol = ''SOL'', h_uiAmount = 0\<rparr>]) (1 / 1000) 0 = None"
    by (rule waitForBalance_never_opens) (simp add: sol_balance_def)
  then have second: "baselineFunction example_runtime
        (example_dca_env\<lparr>de_gate := (\<lambda>i. Inr [\<lparr>h_symbol = ''SOL'', h_uiAmount = 0\<rparr>])\<rparr>)
        ''SOL'' ''USDC'' 1 = None"
    by (simp add: baselineFunction_def example_dca_env_def)
  from first second show ?thesis by (simp only: simp_thms)
qed

end
